theory Spec2Isabelle
  imports Main "HOL-Library.Sublist" "HOL-Library.AList" "HOL-Library.Multiset"
begin

section \<open>Strings and numbers of the scripts\<close>

text \<open>
  URLs, header names, class names and storage keys are ASCII and are modelled as
  \<^typ>\<open>string\<close>. Texts that contain emoji or Chinese characters are kept as the list of
  their UTF-16 code units, which is what a JavaScript string is. Numbers are the integers
  they denote; the millisecond clock and the byte counts of the scripts stay far below
  \<open>2^53\<close>, where JavaScript numbers are exact.
\<close>

type_synonym ustring = "nat list"

text \<open>\<^verbatim>\<open>String.prototype.includes\<close>: the argument occurs as a contiguous substring.\<close>

definition str_includes :: "string \<Rightarrow> string \<Rightarrow> bool" where
  "str_includes s sub = sublist sub s"

text \<open>\<^verbatim>\<open>Number.prototype.toString\<close> on an integer: the decimal digits, with a sign.\<close>

definition digit_char :: "nat \<Rightarrow> char" where
  "digit_char d = char_of (48 + d)"

function nat_toString :: "nat \<Rightarrow> string" where
  "nat_toString n =
     (if n < 10 then [digit_char n] else nat_toString (n div 10) @ [digit_char (n mod 10)])"
  by pat_completeness auto
termination
  by (relation "measure id") auto

declare nat_toString.simps [simp del]

definition toString :: "int \<Rightarrow> string" where
  "toString i = (if i < 0 then CHR ''-'' # nat_toString (nat (- i)) else nat_toString (nat i))"

text \<open>
  \<^verbatim>\<open>parseInt(string)\<close> with no radix argument, after ECMAScript: leading white space is
  skipped, one sign is read, a \<^verbatim>\<open>0x\<close> prefix selects radix 16, the longest run of digits
  of the radix is read, and no digit at all gives \<^verbatim>\<open>NaN\<close>, here \<open>None\<close>.
\<close>

definition isWhiteSpace :: "char \<Rightarrow> bool" where
  "isWhiteSpace c = ((of_char c :: nat) \<in> {9, 10, 11, 12, 13, 32, 160})"

definition radix_digit :: "nat \<Rightarrow> char \<Rightarrow> nat option" where
  "radix_digit R c =
     (let n = (of_char c :: nat);
          d = (if 48 \<le> n \<and> n \<le> 57 then Some (n - 48)
               else if 97 \<le> n \<and> n \<le> 122 then Some (n - 87)
               else if 65 \<le> n \<and> n \<le> 90 then Some (n - 55)
               else None)
      in case d of None \<Rightarrow> None | Some v \<Rightarrow> if v < R then Some v else None)"

definition digits_value :: "nat \<Rightarrow> string \<Rightarrow> nat" where
  "digits_value R Z =
     foldl (\<lambda>a c. a * R + (case radix_digit R c of Some d \<Rightarrow> d | None \<Rightarrow> 0)) 0 Z"

definition parseInt :: "string \<Rightarrow> int option" where
  "parseInt s =
     (let S = dropWhile isWhiteSpace s;
          sign = (if prefix ''-'' S then - 1 else 1 :: int);
          S1 = (if prefix ''+'' S \<or> prefix ''-'' S then tl S else S);
          hex = (prefix ''0x'' S1 \<or> prefix ''0X'' S1);
          R = (if hex then 16 else 10 :: nat);
          S2 = (if hex then drop 2 S1 else S1);
          Z = takeWhile (\<lambda>c. radix_digit R c \<noteq> None) S2
      in if Z = [] then None else Some (sign * int (digits_value R Z)))"

section \<open>The service worker\<close>

subsection \<open>Requests, responses, caches\<close>

record request =
  url :: string
  req_method :: string
  destination :: string

text \<open>
  A response body is either what the network delivered or one of the three bodies the
  worker builds itself: the offline page, the placeholder picture (two fixed template
  texts) and the JSON text of the offline answer, kept as the members of the object that
  \<^verbatim>\<open>JSON.stringify\<close> serialises.
\<close>

datatype json = JString ustring | JBool bool | JNumber int

datatype body =
    NetworkBody string
  | OfflinePageHtml
  | PlaceholderSvg
  | JsonText "(string \<times> json) list"

text \<open>
  The header list of a response object carries a guard. A response that the worker
  builds with \<^verbatim>\<open>new Response\<close> has the guard \<^verbatim>\<open>response\<close> and its headers can be
  written. A response that \<^verbatim>\<open>fetch\<close> resolves to, and one that a cache returns, has the
  guard \<^verbatim>\<open>immutable\<close>; \<^verbatim>\<open>clone\<close> keeps the guard, so a clone is the same value here.
\<close>

datatype headers_guard = GuardImmutable | GuardResponse

record response =
  status :: nat
  statusText :: string
  headers :: "(string \<times> string) list"
  body :: body
  guard :: headers_guard

definition ok :: "response \<Rightarrow> bool" where
  "ok r = (200 \<le> status r \<and> status r \<le> 299)"

definition seal :: "response \<Rightarrow> response" where
  "seal r = r\<lparr>guard := GuardImmutable\<rparr>"

text \<open>
  What a handler can throw: the rejection of \<^verbatim>\<open>fetch\<close> when the network fails, and the
  \<^verbatim>\<open>TypeError\<close> of \<^verbatim>\<open>headers.set\<close> on immutable headers.
\<close>

datatype error = NetworkError | HeadersError

text \<open>
  Header names are compared as written; the worker writes and reads each of its headers
  with one spelling. \<^verbatim>\<open>headers.set\<close> throws when the headers are immutable and stores the
  header otherwise.
\<close>

definition headers_get :: "response \<Rightarrow> string \<Rightarrow> string option" where
  "headers_get r name = map_of (headers r) name"

definition headers_set :: "string \<Rightarrow> string \<Rightarrow> response \<Rightarrow> error + response" where
  "headers_set name v r =
     (if guard r = GuardImmutable then Inl HeadersError
      else Inr (r\<lparr>headers := AList.update name v (headers r)\<rparr>))"

datatype cache_name = STATIC_CACHE | DYNAMIC_CACHE | IMAGE_CACHE

text \<open>
  A cache maps the URL of a GET request to the stored response. \<^verbatim>\<open>caches.open\<close> of a
  cache that does not exist yet gives an empty one, so the three caches are fields that
  start empty. What \<^verbatim>\<open>cache.match\<close> returns has immutable headers.
\<close>

type_synonym cache = "(string \<times> response) list"

record cache_storage =
  static_cache :: cache
  dynamic_cache :: cache
  image_cache :: cache

definition no_caches :: cache_storage where
  "no_caches = \<lparr>static_cache = [], dynamic_cache = [], image_cache = []\<rparr>"

fun caches_open :: "cache_storage \<Rightarrow> cache_name \<Rightarrow> cache" where
  "caches_open cs STATIC_CACHE = static_cache cs"
| "caches_open cs DYNAMIC_CACHE = dynamic_cache cs"
| "caches_open cs IMAGE_CACHE = image_cache cs"

definition cache_match :: "cache_storage \<Rightarrow> cache_name \<Rightarrow> request \<Rightarrow> response option" where
  "cache_match cs name req = map_option seal (map_of (caches_open cs name) (url req))"

fun cache_put :: "cache_name \<Rightarrow> request \<Rightarrow> response \<Rightarrow> cache_storage \<Rightarrow> cache_storage" where
  "cache_put STATIC_CACHE req r cs = cs\<lparr>static_cache := AList.update (url req) r (static_cache cs)\<rparr>"
| "cache_put DYNAMIC_CACHE req r cs = cs\<lparr>dynamic_cache := AList.update (url req) r (dynamic_cache cs)\<rparr>"
| "cache_put IMAGE_CACHE req r cs = cs\<lparr>image_cache := AList.update (url req) r (image_cache cs)\<rparr>"

subsection \<open>Configuration\<close>

definition STATIC_ASSETS :: "string list" where
  "STATIC_ASSETS =
     [''/'',
      ''/static/css/advanced-code-editor.css'',
      ''/static/js/advanced-code-editor.js'',
      ''/static/js/interaction-enhancer.js'',
      ''/static/js/performance-optimizer.js'',
      ''/static/css/bootstrap.min.css'',
      ''/static/js/bootstrap.bundle.min.js'',
      ''https://cdnjs.cloudflare.com/ajax/libs/font-awesome/6.0.0/css/all.min.css'',
      ''https://cdn.jsdelivr.net/npm/monaco-editor@latest/min/vs/loader.js'']"

text \<open>Each regular expression of the worker is a literal text anchored at the start or at the end.\<close>

datatype pattern = StartsWith string | EndsWith string

fun test :: "pattern \<Rightarrow> string \<Rightarrow> bool" where
  "test (StartsWith p) s = prefix p s"
| "test (EndsWith p) s = suffix p s"

definition DYNAMIC_CACHE_PATTERNS :: "pattern list" where
  "DYNAMIC_CACHE_PATTERNS =
     [StartsWith ''/api/'', StartsWith ''/static/'', EndsWith ''.json'', EndsWith ''.js'',
      EndsWith ''.css'']"

definition IMAGE_CACHE_PATTERNS :: "pattern list" where
  "IMAGE_CACHE_PATTERNS =
     [EndsWith ''.jpg'', EndsWith ''.jpeg'', EndsWith ''.png'', EndsWith ''.gif'',
      EndsWith ''.webp'', EndsWith ''.svg'']"

datatype cache_class = static | dynamic | images | api

fun CACHE_EXPIRY :: "cache_class \<Rightarrow> int" where
  "CACHE_EXPIRY static = 7 * 24 * 60 * 60 * 1000"
| "CACHE_EXPIRY dynamic = 3 * 24 * 60 * 60 * 1000"
| "CACHE_EXPIRY images = 30 * 24 * 60 * 60 * 1000"
| "CACHE_EXPIRY api = 5 * 60 * 1000"

subsection \<open>Helpers\<close>

definition isStaticAsset :: "request \<Rightarrow> bool" where
  "isStaticAsset req =
     (list_ex (\<lambda>asset. str_includes (url req) asset) STATIC_ASSETS \<or>
      str_includes (url req) ''/static/'' \<or>
      str_includes (url req) ''.css'' \<or>
      str_includes (url req) ''.js'')"

definition isImageRequest :: "request \<Rightarrow> bool" where
  "isImageRequest req =
     (list_ex (\<lambda>p. test p (url req)) IMAGE_CACHE_PATTERNS \<or> destination req = ''image'')"

definition isDynamicRequest :: "request \<Rightarrow> bool" where
  "isDynamicRequest req = list_ex (\<lambda>p. test p (url req)) DYNAMIC_CACHE_PATTERNS"

definition isApiRequest :: "request \<Rightarrow> bool" where
  "isApiRequest req = (str_includes (url req) ''/api/'' \<or> str_includes (url req) ''.json'')"

text \<open>
  The clock reading \<open>now\<close> is what \<^verbatim>\<open>Date.now()\<close> returns; one run of a handler reads
  the same value throughout.
\<close>

definition isCacheExpired :: "int \<Rightarrow> response \<Rightarrow> int \<Rightarrow> bool" where
  "isCacheExpired now r maxAge =
     (case headers_get r ''X-Cache-Timestamp'' of
        None \<Rightarrow> True
      | Some timestamp \<Rightarrow>
          if timestamp = [] then True
          else (case parseInt timestamp of
                  None \<Rightarrow> False
                | Some t \<Rightarrow> now - t > maxAge))"

definition addTimestamp :: "int \<Rightarrow> response \<Rightarrow> error + response" where
  "addTimestamp now r = headers_set ''X-Cache-Timestamp'' (toString now) r"

definition createOfflinePage :: response where
  "createOfflinePage =
     \<lparr>status = 200, statusText = ''OK'',
      headers = [(''Content-Type'', ''text/html; charset=utf-8''), (''X-Served-By'', ''ServiceWorker'')],
      body = OfflinePageHtml, guard = GuardResponse\<rparr>"

definition createPlaceholderImage :: response where
  "createPlaceholderImage =
     \<lparr>status = 200, statusText = ''OK'',
      headers = [(''Content-Type'', ''image/svg+xml''), (''X-Served-By'', ''ServiceWorker'')],
      body = PlaceholderSvg, guard = GuardResponse\<rparr>"

subsection \<open>Cache strategies\<close>

text \<open>
  The network is a function of the environment: \<open>None\<close> is a failed request, and
  \<^verbatim>\<open>fetch(request)\<close> resolves to what the network answers, with immutable headers. A
  handler is an async function; its run is recorded as the settled promise, the caches
  afterwards, and the requests it sent to the network, in order.
\<close>

type_synonym network = "request \<Rightarrow> response option"

definition worker_fetch :: "network \<Rightarrow> request \<Rightarrow> response option" where
  "worker_fetch net req = map_option seal (net req)"

datatype outcome = Resolved response | Rejected error

record run =
  outcome :: outcome
  caches :: cache_storage
  fetched :: "request list"

text \<open>The \<^verbatim>\<open>catch\<close> block of \<^verbatim>\<open>handleStaticAsset\<close>, for the error it caught.\<close>

definition handleStaticAsset_catch :: "error \<Rightarrow> cache_storage \<Rightarrow> request \<Rightarrow> outcome" where
  "handleStaticAsset_catch e cs req =
     (case cache_match cs STATIC_CACHE req of
        Some cached \<Rightarrow> Resolved cached
      | None \<Rightarrow>
          if destination req = ''document'' then Resolved createOfflinePage else Rejected e)"

text \<open>
  The \<^verbatim>\<open>try\<close> block of \<^verbatim>\<open>handleStaticAsset\<close> from \<^verbatim>\<open>await fetch(request)\<close> on. Both
  \<^verbatim>\<open>fetch\<close> and \<^verbatim>\<open>addTimestamp\<close> stand inside the \<^verbatim>\<open>try\<close>, so what either throws goes
  to the \<^verbatim>\<open>catch\<close> block.
\<close>

definition handleStaticAsset_fetch :: "int \<Rightarrow> network \<Rightarrow> cache_storage \<Rightarrow> request \<Rightarrow> run" where
  "handleStaticAsset_fetch now net cs req =
     (case worker_fetch net req of
        None \<Rightarrow>
          \<lparr>outcome = handleStaticAsset_catch NetworkError cs req, caches = cs, fetched = [req]\<rparr>
      | Some r \<Rightarrow>
          if ok r
          then (case addTimestamp now r of
                  Inl e \<Rightarrow>
                    \<lparr>outcome = handleStaticAsset_catch e cs req, caches = cs, fetched = [req]\<rparr>
                | Inr responseClone \<Rightarrow>
                    \<lparr>outcome = Resolved r,
                     caches = cache_put STATIC_CACHE req responseClone cs, fetched = [req]\<rparr>)
          else \<lparr>outcome = Resolved r, caches = cs, fetched = [req]\<rparr>)"

definition handleStaticAsset :: "int \<Rightarrow> network \<Rightarrow> cache_storage \<Rightarrow> request \<Rightarrow> run" where
  "handleStaticAsset now net cs req =
     (case cache_match cs STATIC_CACHE req of
        Some cached \<Rightarrow>
          if \<not> isCacheExpired now cached (CACHE_EXPIRY static)
          then \<lparr>outcome = Resolved cached, caches = cs, fetched = []\<rparr>
          else handleStaticAsset_fetch now net cs req
      | None \<Rightarrow> handleStaticAsset_fetch now net cs req)"

text \<open>The same parts of \<^verbatim>\<open>handleImageRequest\<close>.\<close>

definition handleImageRequest_catch :: "cache_storage \<Rightarrow> request \<Rightarrow> outcome" where
  "handleImageRequest_catch cs req =
     (case cache_match cs IMAGE_CACHE req of
        Some cached \<Rightarrow> Resolved cached
      | None \<Rightarrow> Resolved createPlaceholderImage)"

definition handleImageRequest_fetch :: "int \<Rightarrow> network \<Rightarrow> cache_storage \<Rightarrow> request \<Rightarrow> run" where
  "handleImageRequest_fetch now net cs req =
     (case worker_fetch net req of
        None \<Rightarrow> \<lparr>outcome = handleImageRequest_catch cs req, caches = cs, fetched = [req]\<rparr>
      | Some r \<Rightarrow>
          if ok r
          then (case addTimestamp now r of
                  Inl e \<Rightarrow> \<lparr>outcome = handleImageRequest_catch cs req, caches = cs, fetched = [req]\<rparr>
                | Inr responseClone \<Rightarrow>
                    \<lparr>outcome = Resolved r,
                     caches = cache_put IMAGE_CACHE req responseClone cs, fetched = [req]\<rparr>)
          else \<lparr>outcome = Resolved r, caches = cs, fetched = [req]\<rparr>)"

definition handleImageRequest :: "int \<Rightarrow> network \<Rightarrow> cache_storage \<Rightarrow> request \<Rightarrow> run" where
  "handleImageRequest now net cs req =
     (case cache_match cs IMAGE_CACHE req of
        Some cached \<Rightarrow>
          if \<not> isCacheExpired now cached (CACHE_EXPIRY images)
          then \<lparr>outcome = Resolved cached, caches = cs, fetched = []\<rparr>
          else handleImageRequest_fetch now net cs req
      | None \<Rightarrow> handleImageRequest_fetch now net cs req)"

text \<open>\<^verbatim>\<open>handleDynamicRequest\<close>: its \<^verbatim>\<open>catch\<close> block, then the whole function.\<close>

definition handleDynamicRequest_catch :: "int \<Rightarrow> error \<Rightarrow> cache_storage \<Rightarrow> request \<Rightarrow> outcome" where
  "handleDynamicRequest_catch now e cs req =
     (case cache_match cs DYNAMIC_CACHE req of
        Some cached \<Rightarrow>
          if \<not> isCacheExpired now cached (CACHE_EXPIRY dynamic) then Resolved cached
          else Rejected e
      | None \<Rightarrow> Rejected e)"

definition handleDynamicRequest :: "int \<Rightarrow> network \<Rightarrow> cache_storage \<Rightarrow> request \<Rightarrow> run" where
  "handleDynamicRequest now net cs req =
     (case worker_fetch net req of
        None \<Rightarrow>
          \<lparr>outcome = handleDynamicRequest_catch now NetworkError cs req, caches = cs,
           fetched = [req]\<rparr>
      | Some r \<Rightarrow>
          if ok r
          then (case addTimestamp now r of
                  Inl e \<Rightarrow>
                    \<lparr>outcome = handleDynamicRequest_catch now e cs req, caches = cs,
                     fetched = [req]\<rparr>
                | Inr responseClone \<Rightarrow>
                    \<lparr>outcome = Resolved r,
                     caches = cache_put DYNAMIC_CACHE req responseClone cs, fetched = [req]\<rparr>)
          else \<lparr>outcome = Resolved r, caches = cs, fetched = [req]\<rparr>)"

text \<open>The Chinese text of the \<^verbatim>\<open>error\<close> member of the offline answer, as UTF-16 code units.\<close>

definition offline_error_text :: ustring where
  "offline_error_text = [32593, 32476, 36830, 25509, 22833, 36133]"

definition offline_response :: "int \<Rightarrow> response" where
  "offline_response now =
     \<lparr>status = 503, statusText = ''Service Unavailable'',
      headers = [(''Content-Type'', ''application/json''), (''X-Served-From-Cache'', ''false'')],
      body = JsonText [(''error'', JString offline_error_text), (''offline'', JBool True),
                       (''timestamp'', JNumber now)],
      guard = GuardResponse\<rparr>"

text \<open>
  \<^verbatim>\<open>handleApiRequest\<close>: its \<^verbatim>\<open>catch\<close> block, where what \<^verbatim>\<open>headers.set\<close> throws
  rejects the promise of the handler, then the whole function.
\<close>

definition handleApiRequest_catch :: "int \<Rightarrow> cache_storage \<Rightarrow> request \<Rightarrow> outcome" where
  "handleApiRequest_catch now cs req =
     (case cache_match cs DYNAMIC_CACHE req of
        Some cached \<Rightarrow>
          if \<not> isCacheExpired now cached (CACHE_EXPIRY api)
          then (case headers_set ''X-Served-From-Cache'' ''true'' cached of
                  Inl e \<Rightarrow> Rejected e
                | Inr offlineResponse \<Rightarrow> Resolved offlineResponse)
          else Resolved (offline_response now)
      | None \<Rightarrow> Resolved (offline_response now))"

definition handleApiRequest :: "int \<Rightarrow> network \<Rightarrow> cache_storage \<Rightarrow> request \<Rightarrow> run" where
  "handleApiRequest now net cs req =
     (case worker_fetch net req of
        None \<Rightarrow> \<lparr>outcome = handleApiRequest_catch now cs req, caches = cs, fetched = [req]\<rparr>
      | Some r \<Rightarrow>
          if ok r
          then (case addTimestamp now r of
                  Inl e \<Rightarrow> \<lparr>outcome = handleApiRequest_catch now cs req, caches = cs, fetched = [req]\<rparr>
                | Inr responseClone \<Rightarrow>
                    \<lparr>outcome = Resolved r,
                     caches = cache_put DYNAMIC_CACHE req responseClone cs, fetched = [req]\<rparr>)
          else \<lparr>outcome = Resolved r, caches = cs, fetched = [req]\<rparr>)"

definition handleDefaultRequest :: "int \<Rightarrow> network \<Rightarrow> cache_storage \<Rightarrow> request \<Rightarrow> run" where
  "handleDefaultRequest now net cs req =
     (case worker_fetch net req of
        Some r \<Rightarrow> \<lparr>outcome = Resolved r, caches = cs, fetched = [req]\<rparr>
      | None \<Rightarrow>
          if destination req = ''document''
          then \<lparr>outcome = Resolved createOfflinePage, caches = cs, fetched = [req]\<rparr>
          else \<lparr>outcome = Rejected NetworkError, caches = cs, fetched = [req]\<rparr>)"

subsection \<open>The fetch event listener\<close>

text \<open>
  A listener that returns without \<^verbatim>\<open>event.respondWith\<close> leaves the request to the
  browser, which sends it to the network itself; otherwise the page gets what the chosen
  handler settles to.
\<close>

datatype fetch_event = NotIntercepted | RespondWith run

definition fetch_listener :: "int \<Rightarrow> network \<Rightarrow> cache_storage \<Rightarrow> request \<Rightarrow> fetch_event" where
  "fetch_listener now net cs req =
     (if \<not> prefix ''http'' (url req) then NotIntercepted
      else if req_method req \<noteq> ''GET'' then NotIntercepted
      else if isStaticAsset req then RespondWith (handleStaticAsset now net cs req)
      else if isImageRequest req then RespondWith (handleImageRequest now net cs req)
      else if isDynamicRequest req then RespondWith (handleDynamicRequest now net cs req)
      else if isApiRequest req then RespondWith (handleApiRequest now net cs req)
      else RespondWith (handleDefaultRequest now net cs req))"

subsection \<open>Notions used to state the properties of the worker\<close>

text \<open>The scheme of a URL is the text before its first colon.\<close>

definition url_scheme :: "string \<Rightarrow> string" where
  "url_scheme u = takeWhile (\<lambda>c. c \<noteq> CHR '':'') u"

text \<open>The entry of a cache for a request, when there is one and it has not expired.\<close>

definition fresh_entry :: "int \<Rightarrow> cache_storage \<Rightarrow> cache_name \<Rightarrow> cache_class \<Rightarrow> request \<Rightarrow> response option" where
  "fresh_entry now cs name cl req =
     (case cache_match cs name req of
        None \<Rightarrow> None
      | Some cached \<Rightarrow> if isCacheExpired now cached (CACHE_EXPIRY cl) then None else Some cached)"

text \<open>Days and minutes in milliseconds, the unit of the clock and of the limits.\<close>

definition days :: "int \<Rightarrow> int" where
  "days n = n * 24 * 60 * 60 * 1000"

definition minutes :: "int \<Rightarrow> int" where
  "minutes n = n * 60 * 1000"

text \<open>The characters \<^verbatim>\<open>0\<close> to \<^verbatim>\<open>9\<close>.\<close>

definition is_decimal :: "char \<Rightarrow> bool" where
  "is_decimal c = (48 \<le> (of_char c :: nat) \<and> (of_char c :: nat) \<le> 57)"

subsection \<open>Example requests, responses and networks\<close>

definition api_request :: request where
  "api_request = \<lparr>url = ''https://example.com/api/data.json'', req_method = ''GET'', destination = []\<rparr>"

definition image_request :: request where
  "image_request = \<lparr>url = ''https://example.com/media/logo.png'', req_method = ''GET'', destination = ''image''\<rparr>"

definition css_request :: request where
  "css_request = \<lparr>url = ''https://example.com/static/css/site.css'', req_method = ''GET'', destination = ''style''\<rparr>"

definition post_request :: request where
  "post_request = \<lparr>url = ''https://example.com/api/data.json'', req_method = ''POST'', destination = []\<rparr>"

definition extension_request :: request where
  "extension_request =
     \<lparr>url = ''chrome-extension://abcdefgh/static/js/content.js'', req_method = ''GET'',
      destination = ''script''\<rparr>"

text \<open>
  A request for one of the \<open>STATIC_ASSETS\<close>, and the static cache as the install handler
  leaves it: \<^verbatim>\<open>cache.addAll\<close> stores what the server sent, without a time stamp.
\<close>

definition precached_request :: request where
  "precached_request =
     \<lparr>url = ''https://example.com/static/css/bootstrap.min.css'', req_method = ''GET'',
      destination = ''style''\<rparr>"

definition response_v1 :: response where
  "response_v1 =
     \<lparr>status = 200, statusText = ''OK'', headers = [], body = NetworkBody ''v1'',
      guard = GuardImmutable\<rparr>"

definition response_v2 :: response where
  "response_v2 =
     \<lparr>status = 200, statusText = ''OK'', headers = [], body = NetworkBody ''v2'',
      guard = GuardImmutable\<rparr>"

definition precached_caches :: cache_storage where
  "precached_caches =
     \<lparr>static_cache = [(''https://example.com/static/css/bootstrap.min.css'', response_v1)],
      dynamic_cache = [], image_cache = []\<rparr>"

definition network_down :: network where
  "network_down = (\<lambda>req. None)"

definition network_v1 :: network where
  "network_v1 = (\<lambda>req. Some response_v1)"

definition network_v2 :: network where
  "network_v2 = (\<lambda>req. Some response_v2)"

section \<open>The performance optimizer\<close>

subsection \<open>Memory cache\<close>

text \<open>
  A cached value is given by the text that \<^verbatim>\<open>JSON.stringify\<close> produces for it, which is
  all that \<^verbatim>\<open>calculateObjectSize\<close> looks at. The JavaScript \<^verbatim>\<open>Map\<close> keeps its entries
  in insertion order; \<^verbatim>\<open>set\<close> on a key that is present replaces the value in place and
  on a new key appends, which is \<^const>\<open>AList.update\<close> on the list of entries. Keys are
  strings; the empty string is the falsy one.
\<close>

type_synonym js_data = string

definition calculateObjectSize :: "js_data \<Rightarrow> int" where
  "calculateObjectSize obj = int (length obj) * 2"

record memory_cache =
  memoryCache :: "(string \<times> js_data) list"
  memoryCacheSize :: int
  maxMemoryCacheSize :: int

definition setupMemoryCache :: memory_cache where
  "setupMemoryCache =
     \<lparr>memoryCache = [], memoryCacheSize = 0, maxMemoryCacheSize = 50 * 1024 * 1024\<rparr>"

text \<open>
  The \<^verbatim>\<open>while\<close> loop of \<^verbatim>\<open>cacheInMemory\<close>, on the entries and the recorded size: it
  stops when there is room, when the map is empty (\<^verbatim>\<open>firstKey\<close> is undefined) or when
  the first key is falsy.
\<close>

fun free_space :: "int \<Rightarrow> int \<Rightarrow> (string \<times> js_data) list \<Rightarrow> int \<Rightarrow> (string \<times> js_data) list \<times> int" where
  "free_space itemSize maxSize [] cacheSize = ([], cacheSize)"
| "free_space itemSize maxSize ((firstKey, firstData) # rest) cacheSize =
     (if cacheSize + itemSize > maxSize
      then (if firstKey \<noteq> []
            then free_space itemSize maxSize rest (cacheSize - calculateObjectSize firstData)
            else ((firstKey, firstData) # rest, cacheSize))
      else ((firstKey, firstData) # rest, cacheSize))"

definition cacheInMemory :: "string \<Rightarrow> js_data \<Rightarrow> memory_cache \<Rightarrow> bool \<times> memory_cache" where
  "cacheInMemory key data c =
     (let itemSize = calculateObjectSize data
      in if itemSize > maxMemoryCacheSize c then (False, c)
         else (case free_space itemSize (maxMemoryCacheSize c) (memoryCache c) (memoryCacheSize c) of
                 (entries, cacheSize) \<Rightarrow>
                   (True, c\<lparr>memoryCache := AList.update key data entries,
                            memoryCacheSize := cacheSize + itemSize\<rparr>)))"

definition getFromMemoryCache :: "string \<Rightarrow> memory_cache \<Rightarrow> js_data option" where
  "getFromMemoryCache key c = map_of (memoryCache c) key"

text \<open>The sum of the sizes of the entries that the map really holds.\<close>

definition stored_size :: "(string \<times> js_data) list \<Rightarrow> int" where
  "stored_size entries = sum_list (map (\<lambda>(k, d). calculateObjectSize d) entries)"

text \<open>The JSON text of a string of \<open>n\<close> letters: the letters between two quotes.\<close>

definition text_of_length :: "nat \<Rightarrow> js_data" where
  "text_of_length n = CHR 0x22 # replicate n CHR ''a'' @ [CHR 0x22]"

definition data_20MB :: js_data where
  "data_20MB = text_of_length 10485758"

definition data_30MB :: js_data where
  "data_30MB = text_of_length 15728638"

definition data_45MB :: js_data where
  "data_45MB = text_of_length 23592958"

subsection \<open>Resource queue\<close>

record resource =
  resource_url :: string
  priority :: int

text \<open>
  \<^verbatim>\<open>Array.prototype.sort\<close> is stable; with the comparator
  \<^verbatim>\<open>(a, b) => b.priority - a.priority\<close> it orders by descending priority.
\<close>

definition queueResourceLoad :: "string \<Rightarrow> int \<Rightarrow> resource list \<Rightarrow> resource list" where
  "queueResourceLoad u p resourceQueue =
     sort_key (\<lambda>item. - priority item) (resourceQueue @ [\<lparr>resource_url = u, priority = p\<rparr>])"

text \<open>
  \<^verbatim>\<open>loadResource\<close>: one \<^verbatim>\<open>fetch\<close> of the URL, whose response is returned and whose
  failure is logged and thrown again. The result is paired with the URLs fetched.
\<close>

definition loadResource :: "(string \<Rightarrow> response option) \<Rightarrow> string \<Rightarrow> outcome \<times> string list" where
  "loadResource fetch u =
     (case fetch u of
        Some r \<Rightarrow> (Resolved r, [u])
      | None \<Rightarrow> (Rejected NetworkError, [u]))"

definition maxConcurrent :: "bool \<Rightarrow> nat" where
  "maxConcurrent isOnline = (if isOnline then 6 else 2)"

text \<open>
  One call of \<^verbatim>\<open>processResourceQueue\<close>: the items it shifts from the queue, for each
  of which it starts \<^verbatim>\<open>loadResource\<close> before waiting for any, and the queue it leaves.
\<close>

definition processResourceQueue :: "bool \<Rightarrow> resource list \<Rightarrow> resource list \<times> resource list" where
  "processResourceQueue isOnline resourceQueue =
     (take (maxConcurrent isOnline) resourceQueue, drop (maxConcurrent isOnline) resourceQueue)"

text \<open>
  When loads were started and the queue is not empty after they settled, the function
  calls itself again from a timer: the batches of loads, in the order they are started.
\<close>

function process_batches :: "bool \<Rightarrow> resource list \<Rightarrow> resource list list" where
  "process_batches isOnline resourceQueue =
     (if resourceQueue = [] then []
      else fst (processResourceQueue isOnline resourceQueue) #
           process_batches isOnline (snd (processResourceQueue isOnline resourceQueue)))"
  by pat_completeness auto
termination
  by (relation "measure (\<lambda>(isOnline, resourceQueue). length resourceQueue)")
    (auto simp: processResourceQueue_def maxConcurrent_def)

declare process_batches.simps [simp del]

definition seven_resources :: "resource list" where
  "seven_resources =
     [\<lparr>resource_url = ''/r1.js'', priority = 0\<rparr>, \<lparr>resource_url = ''/r2.js'', priority = 0\<rparr>,
      \<lparr>resource_url = ''/r3.js'', priority = 0\<rparr>, \<lparr>resource_url = ''/r4.js'', priority = 0\<rparr>,
      \<lparr>resource_url = ''/r5.js'', priority = 0\<rparr>, \<lparr>resource_url = ''/r6.js'', priority = 0\<rparr>,
      \<lparr>resource_url = ''/r7.js'', priority = 0\<rparr>]"

section \<open>The theme manager\<close>

text \<open>The table of themes: each key with its display name and icon, as UTF-16 code units.\<close>

record theme =
  theme_name :: ustring
  theme_icon :: ustring

definition themes :: "(string \<times> theme) list" where
  "themes =
     [(''classic'', \<lparr>theme_name = [32463, 20856, 31881, 33394], theme_icon = [55356, 57144]\<rparr>),
      (''sakura'', \<lparr>theme_name = [27973, 27185, 33457, 31881], theme_icon = [55356, 57146]\<rparr>),
      (''rose'', \<lparr>theme_name = [29611, 29808, 32418], theme_icon = [55356, 57145]\<rparr>),
      (''coral'', \<lparr>theme_name = [29642, 29786, 31881], theme_icon = [55357, 56346]\<rparr>),
      (''lavender_original'', \<lparr>theme_name = [34224, 34915, 33609, 21407, 29256], theme_icon = [55357, 56476]\<rparr>),
      (''warm'', \<lparr>theme_name = [26262, 31881, 35843], theme_icon = [55357, 56613]\<rparr>),
      (''dark'', \<lparr>theme_name = [28145, 33394, 19987, 19994], theme_icon = [55356, 57113]\<rparr>),
      (''forest'', \<lparr>theme_name = [26862, 26519, 32511], theme_icon = [55356, 57138]\<rparr>),
      (''ocean'', \<lparr>theme_name = [28023, 27915, 34013], theme_icon = [55356, 57098]\<rparr>),
      (''sunset'', \<lparr>theme_name = [26085, 33853, 27225], theme_icon = [55356, 57093]\<rparr>),
      (''lavender'', \<lparr>theme_name = [34224, 34915, 33609, 32043], theme_icon = [55357, 56476]\<rparr>),
      (''rose-gold'', \<lparr>theme_name = [29611, 29808, 37329], theme_icon = [10024]\<rparr>)]"

text \<open>
  The table is an object literal, and \<^verbatim>\<open>this.themes[key]\<close> is a property read: a key
  that is not a property of the object itself is looked up in \<^verbatim>\<open>Object.prototype\<close>,
  whose properties are functions, and for \<^verbatim>\<open>__proto__\<close> the prototype object: all of
  them truthy. Any other key reads as \<^verbatim>\<open>undefined\<close>, here \<open>None\<close>.
\<close>

definition Object_prototype :: "string list" where
  "Object_prototype =
     [''constructor'', ''__defineGetter__'', ''__defineSetter__'', ''hasOwnProperty'',
      ''__lookupGetter__'', ''__lookupSetter__'', ''isPrototypeOf'', ''propertyIsEnumerable'',
      ''toString'', ''valueOf'', ''__proto__'', ''toLocaleString'']"

datatype property = Theme theme | Inherited string

definition themes_get :: "string \<Rightarrow> property option" where
  "themes_get key =
     (case map_of themes key of
        Some t \<Rightarrow> Some (Theme t)
      | None \<Rightarrow> if key \<in> set Object_prototype then Some (Inherited key) else None)"

definition ascii :: "string \<Rightarrow> ustring" where
  "ascii s = map of_char s"

text \<open>
  The \<^verbatim>\<open>name\<close> property of what was read: the display name of a theme, the name of an
  inherited function, and \<^verbatim>\<open>undefined\<close> for the prototype object.
\<close>

fun property_name :: "property \<Rightarrow> ustring option" where
  "property_name (Theme t) = Some (theme_name t)"
| "property_name (Inherited key) =
     (if key = ''__proto__'' then None
      else if key = ''constructor'' then Some (ascii ''Object'')
      else Some (ascii key))"

text \<open>
  The state the theme manager works on: its own field, the storage of the origin, the
  class list of the body, the theme buttons of the selector with their \<^verbatim>\<open>active\<close>
  mark, and the notification on screen.
\<close>

datatype notification = NoNotification | ThemeNotification "ustring option"

record theme_state =
  currentTheme :: string
  localStorage :: "(string \<times> string) list"
  bodyClasses :: "string list"
  themeOptions :: "(string \<times> bool) list"
  notification :: notification

definition getItem :: "string \<Rightarrow> (string \<times> string) list \<Rightarrow> string option" where
  "getItem key storage = map_of storage key"

definition setItem :: "string \<Rightarrow> string \<Rightarrow> (string \<times> string) list \<Rightarrow> (string \<times> string) list" where
  "setItem key v storage = AList.update key v storage"

text \<open>A class list is an ordered set of tokens.\<close>

definition classList_remove :: "string list \<Rightarrow> string list \<Rightarrow> string list" where
  "classList_remove tokens cl = filter (\<lambda>c. c \<notin> set tokens) cl"

definition classList_add :: "string \<Rightarrow> string list \<Rightarrow> string list" where
  "classList_add token cl = (if token \<in> set cl then cl else cl @ [token])"

definition applyTheme :: "string \<Rightarrow> theme_state \<Rightarrow> theme_state" where
  "applyTheme themeName st =
     (let allThemeClasses = map (\<lambda>t. ''theme-'' @ t) (map fst themes);
          newThemeClass = ''theme-'' @ themeName
      in st\<lparr>bodyClasses := classList_add newThemeClass
                               (classList_remove allThemeClasses (bodyClasses st))\<rparr>)"

definition updateActiveButton :: "string \<Rightarrow> theme_state \<Rightarrow> theme_state" where
  "updateActiveButton themeName st =
     st\<lparr>themeOptions := map (\<lambda>(dataTheme, active). (dataTheme, dataTheme = themeName))
                             (themeOptions st)\<rparr>"

definition showThemeNotification :: "ustring option \<Rightarrow> theme_state \<Rightarrow> theme_state" where
  "showThemeNotification themeName st = st\<lparr>notification := ThemeNotification themeName\<rparr>"

definition setTheme :: "string \<Rightarrow> theme_state \<Rightarrow> theme_state" where
  "setTheme themeName st =
     (case themes_get themeName of
        None \<Rightarrow> st
      | Some entry \<Rightarrow>
          (let st1 = st\<lparr>currentTheme := themeName\<rparr>;
               st2 = applyTheme themeName st1;
               st3 = updateActiveButton themeName st2;
               st4 = st3\<lparr>localStorage := setItem ''preferred-theme'' themeName (localStorage st3)\<rparr>
           in showThemeNotification (property_name entry) st4))"

definition loadSavedTheme :: "theme_state \<Rightarrow> theme_state" where
  "loadSavedTheme st =
     (case getItem ''preferred-theme'' (localStorage st) of
        None \<Rightarrow> st
      | Some saved \<Rightarrow>
          if saved \<noteq> [] \<and> themes_get saved \<noteq> None
          then applyTheme saved (st\<lparr>currentTheme := saved\<rparr>)
          else st)"

definition createThemeSelector :: "theme_state \<Rightarrow> theme_state" where
  "createThemeSelector st =
     st\<lparr>themeOptions := themeOptions st @ map (\<lambda>(key, t). (key, key = currentTheme st)) themes\<rparr>"

text \<open>
  \<^verbatim>\<open>new ThemeManager()\<close> on a freshly loaded page: the storage is what earlier visits
  left, the class list of the body is what the page template gives.
\<close>

definition new_ThemeManager :: "(string \<times> string) list \<Rightarrow> string list \<Rightarrow> theme_state" where
  "new_ThemeManager storage classes =
     createThemeSelector (loadSavedTheme
       \<lparr>currentTheme = ''classic'', localStorage = storage, bodyClasses = classes,
        themeOptions = [], notification = NoNotification\<rparr>)"

text \<open>The theme whose class the body carries, when it carries exactly one theme class.\<close>

definition applied_themes :: "theme_state \<Rightarrow> string list" where
  "applied_themes st = filter (\<lambda>key. (''theme-'' @ key) \<in> set (bodyClasses st)) (map fst themes)"

section \<open>The icon manager\<close>

text \<open>The map from Font Awesome classes to emoji, in the order the object literal lists them.\<close>

definition iconMap :: "(string \<times> ustring) list" where
  "iconMap =
     [(''fa-lightbulb'', [55357, 56481]),
      (''fa-question-circle'', [10067]),
      (''fa-highlighter'', [55357, 56525]),
      (''fa-highlight'', [55357, 56525]),
      (''fa-file-code'', [55357, 56516]),
      (''fa-code'', [55357, 56507]),
      (''fa-brain'', [55358, 56800]),
      (''fa-print'', [55357, 56744, 65039]),
      (''fa-copy'', [55357, 56523]),
      (''fa-clock'', [55357, 56656]),
      (''fa-home'', [55356, 57312]),
      (''fa-history'', [55357, 56523]),
      (''fa-chart-line'', [55357, 56520]),
      (''fa-tachometer-alt'', [55357, 56522]),
      (''fa-vial'', [55358, 56810]),
      (''fa-heart'', [10084, 65039]),
      (''fa-check-circle'', [9989]),
      (''fa-magic'', [10024]),
      (''fa-comments'', [55357, 56492]),
      (''fa-clipboard-list'', [55357, 56523]),
      (''fa-wifi'', [55357, 56566]),
      (''fa-palette'', [55356, 57256]),
      (''fa-icons'', [55357, 56615]),
      (''fa-swatchbook'', [55356, 57256]),
      (''fa-info-circle'', [8505, 65039])]"

text \<open>
  An element of the page, with its tag in lower case as \<^verbatim>\<open>localName\<close> gives it, and the
  page as the icon manager sees it: the class list of the body and the elements in
  document order. Icons are taken to have no child elements, so
  that writing the text of one touches no other element. The notification that
  \<^verbatim>\<open>enableEmojiIcons\<close> puts on screen is a \<^verbatim>\<open>div\<close> with two \<^verbatim>\<open>span\<close>s and holds
  no icon; it is recorded as a flag.
\<close>

record element =
  localName :: string
  classList :: "string list"
  textContent :: ustring
  style :: "(string \<times> string) list"

record icon_state =
  isEmojiModeActive :: bool
  body_classList :: "string list"
  elements :: "element list"
  iconNotification :: bool

text \<open>The selector \<^verbatim>\<open>'i.fas, i.fa, i.far, i.fab'\<close>.\<close>

definition matches_icon_selector :: "element \<Rightarrow> bool" where
  "matches_icon_selector e =
     (localName e = ''i'' \<and>
      (''fas'' \<in> set (classList e) \<or> ''fa'' \<in> set (classList e) \<or>
       ''far'' \<in> set (classList e) \<or> ''fab'' \<in> set (classList e)))"

definition setupIconFallback :: "element \<Rightarrow> element" where
  "setupIconFallback icon =
     (case find (\<lambda>(faClass, emoji). faClass \<in> set (classList icon)) iconMap of
        None \<Rightarrow> icon
      | Some (faClass, emoji) \<Rightarrow>
          icon\<lparr>textContent := emoji,
               style :=
                 AList.update ''position'' ''relative''
                   (AList.update ''textAlign'' ''center''
                     (AList.update ''width'' ''1em''
                       (AList.update ''display'' ''inline-block''
                         (AList.update ''fontWeight'' ''normal''
                           (AList.update ''fontStyle'' ''normal''
                             (AList.update ''fontFamily''
                                (CHR 0x22 # ''Apple Color Emoji'' @ CHR 0x22 # '', '' @
                                 CHR 0x22 # ''Segoe UI Emoji'' @ CHR 0x22 # '', '' @
                                 CHR 0x22 # ''Segoe UI Symbol'' @ CHR 0x22 # '', sans-serif'')
                                (style icon)))))))\<rparr>)"

definition updateAllIcons :: "icon_state \<Rightarrow> icon_state" where
  "updateAllIcons st =
     st\<lparr>elements := map (\<lambda>e. if matches_icon_selector e then setupIconFallback e else e)
                         (elements st)\<rparr>"

definition showIconNotification :: "icon_state \<Rightarrow> icon_state" where
  "showIconNotification st = st\<lparr>iconNotification := True\<rparr>"

definition enableEmojiIcons :: "icon_state \<Rightarrow> icon_state" where
  "enableEmojiIcons st =
     showIconNotification
       (updateAllIcons
         (st\<lparr>isEmojiModeActive := True,
             body_classList := classList_add ''icon-fallback-active'' (body_classList st)\<rparr>))"

text \<open>
  \<^verbatim>\<open>checkFontAwesome\<close> appends three hidden test icons to the body and, from a timer,
  reads the computed \<^verbatim>\<open>content\<close> of the \<^verbatim>\<open>:before\<close> part of each; these readings are
  the input \<open>contents\<close>. Font Awesome counts as loaded when one reading is a real value.
  The branch for a loaded Font Awesome calls \<^verbatim>\<open>this.setupFallbacks\<close>, which the class
  does not define: the call throws before the test icons are removed.
\<close>

definition testElements :: "element list" where
  "testElements =
     map (\<lambda>cls. \<lparr>localName = ''i'', classList = cls, textContent = [],
                  style = [(''cssText'', ''opacity: 0; position: absolute; pointer-events: none;'')]\<rparr>)
       [[''fas'', ''fa-home''], [''fas'', ''fa-lightbulb''], [''fas'', ''fa-code'']]"

definition valid_content :: "ustring \<Rightarrow> bool" where
  "valid_content content =
     (content \<noteq> [] \<and> content \<noteq> ascii ''none'' \<and> content \<noteq> ascii [CHR 0x22, CHR 0x22] \<and>
      content \<noteq> ascii ''normal'')"

definition hasFontAwesome :: "ustring list \<Rightarrow> bool" where
  "hasFontAwesome contents = list_ex valid_content (take (length testElements) contents)"

datatype js_error = TypeError

definition checkFontAwesome :: "ustring list \<Rightarrow> icon_state \<Rightarrow> js_error option \<times> icon_state" where
  "checkFontAwesome contents st =
     (let st1 = st\<lparr>elements := elements st @ testElements\<rparr>
      in if \<not> hasFontAwesome contents
         then (let st2 = enableEmojiIcons st1
               in (None, st2\<lparr>elements := take (length (elements st)) (elements st2)\<rparr>))
         else (Some TypeError, st1))"

text \<open>A small page: two icons of the map, an icon outside it, and a paragraph.\<close>

definition example_page :: icon_state where
  "example_page =
     \<lparr>isEmojiModeActive = False, body_classList = [''theme-classic''],
      elements =
        [\<lparr>localName = ''i'', classList = [''fas'', ''fa-home'', ''fa-code''], textContent = [], style = []\<rparr>,
         \<lparr>localName = ''i'', classList = [''far'', ''fa-heart''], textContent = [], style = []\<rparr>,
         \<lparr>localName = ''i'', classList = [''fas'', ''fa-download''], textContent = [], style = []\<rparr>,
         \<lparr>localName = ''p'', classList = [''fa-home''], textContent = [], style = []\<rparr>],
      iconNotification = False\<rparr>"

section \<open>Properties of the service worker\<close>

subsection \<open>Decimal text of the clock\<close>

lemma is_decimal_digit_char: "d < 10 \<Longrightarrow> is_decimal (digit_char d)"
  by (simp add: is_decimal_def digit_char_def)

lemma nat_toString_decimal: "\<forall>c \<in> set (nat_toString n). is_decimal c"
proof (induction n rule: nat_toString.induct)
  case (1 n)
  show ?case
  proof (cases "n < 10")
    case True
    then show ?thesis by (subst nat_toString.simps) (simp add: is_decimal_digit_char)
  next
    case False
    with 1 show ?thesis
      by (subst nat_toString.simps) (simp add: is_decimal_digit_char)
  qed
qed

lemma nat_toString_nonempty: "nat_toString n \<noteq> []"
  by (subst nat_toString.simps) simp

lemma radix_digit_digit_char: "d < 10 \<Longrightarrow> radix_digit 10 (digit_char d) = Some d"
  by (simp add: radix_digit_def digit_char_def Let_def)

lemma digits_value_snoc:
  "digits_value R (xs @ [c]) =
     digits_value R xs * R + (case radix_digit R c of Some d \<Rightarrow> d | None \<Rightarrow> 0)"
  by (simp add: digits_value_def)

lemma digits_value_nat_toString: "digits_value 10 (nat_toString n) = n"
proof (induction n rule: nat_toString.induct)
  case (1 n)
  show ?case
  proof (cases "n < 10")
    case True
    then show ?thesis
      by (subst nat_toString.simps) (simp add: digits_value_def radix_digit_digit_char)
  next
    case False
    with 1 have "digits_value 10 (nat_toString (n div 10)) = n div 10" by simp
    with False show ?thesis
      by (subst nat_toString.simps) (simp add: digits_value_snoc radix_digit_digit_char)
  qed
qed

lemma is_decimal_props:
  assumes "is_decimal c"
  shows "\<not> isWhiteSpace c" and "\<exists>y. radix_digit 10 c = Some y"
    and "c \<noteq> CHR ''-''" and "c \<noteq> CHR ''+''" and "c \<noteq> CHR ''x''" and "c \<noteq> CHR ''X''"
  using assms
  by (auto simp: is_decimal_def isWhiteSpace_def radix_digit_def Let_def)

lemma parseInt_decimal:
  assumes "ds \<noteq> []" and "\<forall>c \<in> set ds. is_decimal c"
  shows "parseInt ds = Some (int (digits_value 10 ds))"
proof -
  obtain c cs where ds: "ds = c # cs" using assms(1) by (cases ds) auto
  have c: "is_decimal c" using assms(2) ds by simp
  have S: "dropWhile isWhiteSpace ds = ds"
    using ds is_decimal_props(1)[OF c] by simp
  have nosign: "\<not> prefix ''-'' ds" "\<not> prefix ''+'' ds"
    using ds is_decimal_props(3,4)[OF c] by auto
  have nohex: "\<not> prefix ''0x'' ds" "\<not> prefix ''0X'' ds"
    using ds assms(2) is_decimal_props(5,6) by (cases cs; auto)+
  have Z: "takeWhile (\<lambda>c. \<exists>y. radix_digit 10 c = Some y) ds = ds"
    using assms(2) is_decimal_props(2) by (simp add: takeWhile_eq_all_conv)
  show ?thesis
    using assms(1) by (simp add: parseInt_def Let_def S nosign nohex Z)
qed

lemma parseInt_minus_decimal:
  assumes "ds \<noteq> []" and "\<forall>c \<in> set ds. is_decimal c"
  shows "parseInt (CHR ''-'' # ds) = Some (- int (digits_value 10 ds))"
proof -
  obtain c cs where ds: "ds = c # cs" using assms(1) by (cases ds) auto
  have nohex: "\<not> prefix ''0x'' ds" "\<not> prefix ''0X'' ds"
    using ds assms(2) is_decimal_props(5,6) by (cases cs; auto)+
  have Z: "takeWhile (\<lambda>c. \<exists>y. radix_digit 10 c = Some y) ds = ds"
    using assms(2) is_decimal_props(2) by (simp add: takeWhile_eq_all_conv)
  show ?thesis
    using assms(1) by (simp add: parseInt_def Let_def isWhiteSpace_def nohex Z)
qed

lemma toString_nonempty: "toString i \<noteq> []"
  by (simp add: toString_def nat_toString_nonempty)

lemma parseInt_toString: "parseInt (toString i) = Some i"
  by (simp add: toString_def parseInt_decimal parseInt_minus_decimal
      nat_toString_nonempty nat_toString_decimal digits_value_nat_toString)

subsection \<open>Expiry and time stamps\<close>

text \<open>
  A response without the time stamp header is expired. One whose header holds the
  decimal text of a clock reading \<open>t\<close> is expired at a later reading \<open>now\<close> exactly when
  more than \<open>maxAge\<close> milliseconds have passed.
\<close>

lemma isCacheExpired_no_timestamp:
  "headers_get r ''X-Cache-Timestamp'' = None \<Longrightarrow> isCacheExpired now r maxAge"
  by (simp add: isCacheExpired_def)

lemma isCacheExpired_timestamp:
  "headers_get r ''X-Cache-Timestamp'' = Some (toString t) \<Longrightarrow>
   isCacheExpired now r maxAge = (now - t > maxAge)"
  by (simp add: isCacheExpired_def toString_nonempty parseInt_toString)

lemma CACHE_EXPIRY_limits:
  "CACHE_EXPIRY static = days 7" "CACHE_EXPIRY dynamic = days 3"
  "CACHE_EXPIRY images = days 30" "CACHE_EXPIRY api = minutes 5"
  by (simp_all add: days_def minutes_def)

text \<open>
  \<^verbatim>\<open>addTimestamp\<close> stamps a response whose headers can be written, and throws on one
  that came from \<^verbatim>\<open>fetch\<close> or from a cache.
\<close>

lemma addTimestamp_writable:
  assumes "guard r = GuardResponse"
  shows "\<exists>r'. addTimestamp t r = Inr r' \<and>
           headers_get r' ''X-Cache-Timestamp'' = Some (toString t)"
  using assms by (simp add: addTimestamp_def headers_set_def headers_get_def update_conv')

lemma addTimestamp_sealed: "addTimestamp t (seal r) = Inl HeadersError"
  by (simp add: addTimestamp_def headers_set_def seal_def)

lemma addTimestamp_fetched:
  "worker_fetch net req = Some r \<Longrightarrow> addTimestamp t r = Inl HeadersError"
  by (auto simp: worker_fetch_def addTimestamp_sealed)

subsection \<open>Which handler the listener picks\<close>

lemma str_includes_single: "str_includes s [c] = (c \<in> set s)"
  unfolding str_includes_def
  by (induction s) (auto simp: sublist_Cons_right)

text \<open>
  The first entry of \<open>STATIC_ASSETS\<close> is the one-character text of the root page, so every
  URL with a slash in it counts as a static asset.
\<close>

lemma slash_static: "CHR ''/'' \<in> set (url req) \<Longrightarrow> isStaticAsset req"
  by (simp add: isStaticAsset_def STATIC_ASSETS_def str_includes_single)

lemma http_has_slash:
  assumes "prefix ''http://'' u \<or> prefix ''https://'' u"
  shows "CHR ''/'' \<in> set u"
  using assms by (auto simp: prefix_def)

text \<open>A URL that begins with the letters http has a scheme that begins with them.\<close>

lemma scheme_of_http_url: "prefix ''http'' u \<Longrightarrow> prefix ''http'' (url_scheme u)"
  by (auto simp: prefix_def url_scheme_def)

lemma listener_routes_http_to_static:
  assumes "prefix ''http://'' (url req) \<or> prefix ''https://'' (url req)"
    and "req_method req = ''GET''"
  shows "fetch_listener now net cs req = RespondWith (handleStaticAsset now net cs req)"
proof -
  have "prefix ''http'' (url req)"
    using assms(1) by (auto simp: prefix_def)
  moreover have "isStaticAsset req"
    using assms(1) by (intro slash_static http_has_slash)
  ultimately show ?thesis
    using assms(2) by (simp add: fetch_listener_def)
qed

text \<open>
  Every response the listener gets from \<^verbatim>\<open>fetch\<close> has immutable headers, so no handler
  reaches its \<^verbatim>\<open>cache.put\<close>: the caches after a fetch event are the caches before it.
\<close>

lemma handlers_keep_caches:
  "caches (handleStaticAsset now net cs req) = cs"
  "caches (handleImageRequest now net cs req) = cs"
  "caches (handleDynamicRequest now net cs req) = cs"
  "caches (handleApiRequest now net cs req) = cs"
  "caches (handleDefaultRequest now net cs req) = cs"
  by (auto simp: handleStaticAsset_def handleStaticAsset_fetch_def handleImageRequest_def
      handleImageRequest_fetch_def handleDynamicRequest_def handleApiRequest_def
      handleDefaultRequest_def addTimestamp_fetched split: option.splits sum.splits)

lemma listener_keeps_caches:
  "fetch_listener now net cs req = RespondWith run \<Longrightarrow> caches run = cs"
  by (auto simp: fetch_listener_def handlers_keep_caches split: if_splits)

subsection \<open>What the handlers do on their own\<close>

text \<open>
  \<^verbatim>\<open>handleStaticAsset\<close> answers from the static cache, without a fetch, when the cache
  holds an entry that has not expired. When the network answers with an ok status, the
  time stamp cannot be written: the answer of the handler is then the entry in the static
  cache, expired or not, and without one the offline page for a document and the error
  for anything else.
\<close>

lemma handleStaticAsset_fresh:
  assumes "fresh_entry now cs STATIC_CACHE static req = Some cached"
  shows "handleStaticAsset now net cs req =
           \<lparr>outcome = Resolved cached, caches = cs, fetched = []\<rparr>"
  using assms
  by (auto simp: handleStaticAsset_def fresh_entry_def split: option.splits if_splits)

lemma handleStaticAsset_ok_answer:
  assumes "fresh_entry now cs STATIC_CACHE static req = None"
    and "net req = Some r" and "ok r"
  shows "handleStaticAsset now net cs req =
           \<lparr>outcome = (case cache_match cs STATIC_CACHE req of
                          Some cached \<Rightarrow> Resolved cached
                        | None \<Rightarrow> if destination req = ''document''
                                  then Resolved createOfflinePage else Rejected HeadersError),
            caches = cs, fetched = [req]\<rparr>"
proof -
  have net: "worker_fetch net req = Some (seal r)" and okr: "ok (seal r)"
    using assms(2,3) by (simp_all add: worker_fetch_def ok_def seal_def)
  have "handleStaticAsset_fetch now net cs req =
      \<lparr>outcome = handleStaticAsset_catch HeadersError cs req, caches = cs, fetched = [req]\<rparr>"
    by (simp add: handleStaticAsset_fetch_def net okr addTimestamp_sealed)
  moreover have "handleStaticAsset now net cs req = handleStaticAsset_fetch now net cs req"
    using assms(1)
    by (auto simp: handleStaticAsset_def fresh_entry_def split: option.splits if_splits)
  ultimately show ?thesis
    by (simp add: handleStaticAsset_catch_def split: option.splits)
qed

text \<open>
  Called on its own, \<^verbatim>\<open>handleImageRequest\<close> never rejects: when the network fails it
  answers with the cached copy, or with the placeholder picture.
\<close>

lemma handleImageRequest_offline:
  assumes "net req = None"
  shows "outcome (handleImageRequest now net cs req) =
           Resolved (case cache_match cs IMAGE_CACHE req of
                       Some cached \<Rightarrow> cached
                     | None \<Rightarrow> createPlaceholderImage)"
  using assms
  by (simp add: handleImageRequest_def handleImageRequest_fetch_def handleImageRequest_catch_def
      worker_fetch_def split: option.splits)

lemma createPlaceholderImage_svg:
  "status createPlaceholderImage = 200 \<and> body createPlaceholderImage = PlaceholderSvg \<and>
   headers_get createPlaceholderImage ''Content-Type'' = Some ''image/svg+xml''"
  by (simp add: createPlaceholderImage_def headers_get_def)

text \<open>
  Called on its own, \<^verbatim>\<open>handleApiRequest\<close> asks the network once and, when that fails
  and the dynamic cache holds no fresh copy, answers 503 with the offline JSON text.
\<close>

lemma handleApiRequest_offline:
  assumes "net req = None" and "fresh_entry now cs DYNAMIC_CACHE api req = None"
  shows "handleApiRequest now net cs req =
           \<lparr>outcome = Resolved (offline_response now), caches = cs, fetched = [req]\<rparr>"
  using assms
  by (simp add: handleApiRequest_def handleApiRequest_catch_def worker_fetch_def fresh_entry_def
      split: option.splits if_splits)

lemma offline_response_503:
  "status (offline_response now) = 503 \<and>
   statusText (offline_response now) = ''Service Unavailable'' \<and>
   body (offline_response now) =
     JsonText [(''error'', JString offline_error_text), (''offline'', JBool True),
               (''timestamp'', JNumber now)]"
  by (simp add: offline_response_def)

text \<open>
  Called on their own, \<^verbatim>\<open>handleDynamicRequest\<close> and \<^verbatim>\<open>handleApiRequest\<close> start with
  the network: it is asked once whatever the caches hold, and the dynamic cache is read
  only in the \<^verbatim>\<open>catch\<close> block.
\<close>

lemma dynamic_and_api_fetch_first:
  "fetched (handleDynamicRequest now net cs req) = [req]"
  "fetched (handleApiRequest now net cs req) = [req]"
  "net req = None \<Longrightarrow>
     outcome (handleDynamicRequest now net cs req) = handleDynamicRequest_catch now NetworkError cs req"
  "net req = None \<Longrightarrow>
     outcome (handleApiRequest now net cs req) = handleApiRequest_catch now cs req"
  by (auto simp: handleDynamicRequest_def handleApiRequest_def worker_fetch_def
      split: option.splits sum.splits)

subsection \<open>Cache first for static assets and images\<close>

text \<open>
  C1. A GET request that the listener classifies as a static asset or as an image is
  served cache first: an unexpired cached entry is returned without contacting the
  network, and otherwise the network is asked and a successful result is stored back
  into the cache. The code does not do the second half. The two requests below, a style
  sheet and a picture, reach the listener with nothing cached for them, and the network
  answers 200. The listener hands both to the static handler, which asks the network
  once; writing the time stamp on the clone of the answer throws, so the answer is not
  stored and is not returned either: the promise given to \<^verbatim>\<open>respondWith\<close> is rejected
  with the error of \<^verbatim>\<open>headers.set\<close>.
\<close>

theorem static_asset_answer_not_stored:
  "isStaticAsset css_request \<and> isImageRequest image_request \<and>
   fresh_entry 1000 no_caches STATIC_CACHE static css_request = None \<and>
   fresh_entry 1000 no_caches IMAGE_CACHE images image_request = None \<and>
   worker_fetch network_v1 css_request = Some response_v1 \<and>
   worker_fetch network_v1 image_request = Some response_v1 \<and> ok response_v1 \<and>
   fetch_listener 1000 network_v1 no_caches css_request =
     RespondWith \<lparr>outcome = Rejected HeadersError, caches = no_caches, fetched = [css_request]\<rparr> \<and>
   fetch_listener 1000 network_v1 no_caches image_request =
     RespondWith \<lparr>outcome = Rejected HeadersError, caches = no_caches, fetched = [image_request]\<rparr>"
proof -
  have cls: "isStaticAsset css_request" "isImageRequest image_request"
    by (rule slash_static) (simp_all add: css_request_def image_request_def isImageRequest_def)
  have miss: "fresh_entry 1000 no_caches STATIC_CACHE static css_request = None"
    "fresh_entry 1000 no_caches IMAGE_CACHE images image_request = None"
    by (simp_all add: fresh_entry_def cache_match_def no_caches_def)
  have net: "worker_fetch network_v1 css_request = Some response_v1"
    "worker_fetch network_v1 image_request = Some response_v1"
    by (simp_all add: worker_fetch_def network_v1_def seal_def response_v1_def)
  have okr: "ok response_v1" by (simp add: ok_def response_v1_def)
  have raw: "\<And>req. network_v1 req = Some response_v1" by (simp add: network_v1_def)
  have missi: "fresh_entry 1000 no_caches STATIC_CACHE static image_request = None"
    by (simp add: fresh_entry_def cache_match_def no_caches_def)
  have http: "prefix ''http://'' (url css_request) \<or> prefix ''https://'' (url css_request)"
    "prefix ''http://'' (url image_request) \<or> prefix ''https://'' (url image_request)"
    by (simp_all add: css_request_def image_request_def)
  have get: "req_method css_request = ''GET''" "req_method image_request = ''GET''"
    by (simp_all add: css_request_def image_request_def)
  have css: "handleStaticAsset 1000 network_v1 no_caches css_request =
      \<lparr>outcome = Rejected HeadersError, caches = no_caches, fetched = [css_request]\<rparr>"
    using handleStaticAsset_ok_answer [OF miss(1) raw okr]
    by (simp add: cache_match_def no_caches_def css_request_def)
  have img: "handleStaticAsset 1000 network_v1 no_caches image_request =
      \<lparr>outcome = Rejected HeadersError, caches = no_caches, fetched = [image_request]\<rparr>"
    using handleStaticAsset_ok_answer [OF missi raw okr]
    by (simp add: cache_match_def no_caches_def image_request_def)
  show ?thesis
    using cls miss net okr css img
      listener_routes_http_to_static [OF http(1) get(1)]
      listener_routes_http_to_static [OF http(2) get(2)]
    by simp
qed

subsection \<open>Requests the listener leaves alone\<close>

text \<open>
  C9. A request whose method is not GET, or whose URL scheme is not http(s), is never
  intercepted: the listener returns without \<^verbatim>\<open>respondWith\<close>, so no handler runs, the
  worker sends nothing to the network in the place of the browser, and no cache is
  written. The schemes that are not http(s) are those that do not begin with the
  letters http; no other scheme of a request that a browser hands to a worker begins
  with them.
\<close>

theorem other_requests_not_intercepted:
  assumes "req_method req \<noteq> ''GET'' \<or> \<not> prefix ''http'' (url_scheme (url req))"
  shows "fetch_listener now net cs req = NotIntercepted"
  using assms scheme_of_http_url [of "url req"]
  by (auto simp: fetch_listener_def)

theorem other_requests_not_intercepted_witness:
  "req_method post_request \<noteq> ''GET'' \<and>
   url_scheme (url extension_request) = ''chrome-extension'' \<and>
   req_method extension_request = ''GET'' \<and>
   fetch_listener 1000 network_v1 no_caches post_request = NotIntercepted \<and>
   fetch_listener 1000 network_v1 precached_caches extension_request = NotIntercepted"
proof -
  have post: "req_method post_request \<noteq> ''GET''" by (simp add: post_request_def)
  have scheme: "url_scheme (url extension_request) = ''chrome-extension''"
    by (simp add: extension_request_def url_scheme_def)
  have get: "req_method extension_request = ''GET''" by (simp add: extension_request_def)
  have "fetch_listener 1000 network_v1 no_caches post_request = NotIntercepted"
    using other_requests_not_intercepted [of post_request 1000 network_v1 no_caches] post
    by simp
  moreover have "fetch_listener 1000 network_v1 precached_caches extension_request = NotIntercepted"
    using other_requests_not_intercepted [of extension_request 1000 network_v1 precached_caches]
      scheme
    by simp
  ultimately show ?thesis using post scheme get by simp
qed

subsection \<open>Requests for API and dynamic resources\<close>

text \<open>
  C2. A GET request for a dynamic or API resource is served network first: the network
  is tried first and the cache is consulted only when the network fails. The code does
  not do this. The request below is an API request and matches the dynamic patterns.
  The listener hands it to the static handler, which looks in the static cache before it
  asks the network. Nothing is cached and the network answers 200: the handler cannot
  write the time stamp, looks in the static cache again although the network did not
  fail, and rejects, so the page gets an error in the place of the answer of the network.
\<close>

theorem api_request_answer_rejected:
  "isApiRequest api_request \<and> isDynamicRequest api_request \<and>
   worker_fetch network_v1 api_request = Some response_v1 \<and> ok response_v1 \<and>
   fetch_listener 1000 network_v1 no_caches api_request =
     RespondWith (handleStaticAsset 1000 network_v1 no_caches api_request) \<and>
   handleStaticAsset 1000 network_v1 no_caches api_request =
     \<lparr>outcome = Rejected HeadersError, caches = no_caches, fetched = [api_request]\<rparr>"
proof -
  have cls: "isApiRequest api_request \<and> isDynamicRequest api_request"
    by (simp add: api_request_def isApiRequest_def isDynamicRequest_def
        DYNAMIC_CACHE_PATTERNS_def str_includes_def sublist_code suffix_to_prefix)
  have net: "worker_fetch network_v1 api_request = Some response_v1"
    by (simp add: worker_fetch_def network_v1_def seal_def response_v1_def)
  have okr: "ok response_v1" by (simp add: ok_def response_v1_def)
  have raw: "\<And>req. network_v1 req = Some response_v1" by (simp add: network_v1_def)
  have miss: "fresh_entry 1000 no_caches STATIC_CACHE static api_request = None"
    by (simp add: fresh_entry_def cache_match_def no_caches_def)
  have http: "prefix ''http://'' (url api_request) \<or> prefix ''https://'' (url api_request)"
    by (simp add: api_request_def)
  have get: "req_method api_request = ''GET''" by (simp add: api_request_def)
  have run: "handleStaticAsset 1000 network_v1 no_caches api_request =
      \<lparr>outcome = Rejected HeadersError, caches = no_caches, fetched = [api_request]\<rparr>"
    using handleStaticAsset_ok_answer [OF miss raw okr]
    by (simp add: cache_match_def no_caches_def api_request_def)
  show ?thesis
    using cls net okr run listener_routes_http_to_static [OF http get] by simp
qed

subsection \<open>Failed image and API requests\<close>

text \<open>
  C4. When the network fetch for an image request fails, the worker answers with the
  cached copy if there is one and otherwise with a placeholder picture of status 200,
  and the error does not reach the page. The code does not do this. The image request
  below reaches the listener while the network is down and nothing is cached: the
  listener hands it to the static handler, and the promise given to \<^verbatim>\<open>respondWith\<close> is
  rejected with the network error.
\<close>

theorem image_request_error_propagates:
  "isImageRequest image_request \<and>
   fetch_listener 1000 network_down no_caches image_request =
     RespondWith \<lparr>outcome = Rejected NetworkError, caches = no_caches, fetched = [image_request]\<rparr>"
proof -
  have cls: "isImageRequest image_request"
    by (simp add: image_request_def isImageRequest_def)
  have http: "prefix ''http://'' (url image_request) \<or> prefix ''https://'' (url image_request)"
    by (simp add: image_request_def)
  have get: "req_method image_request = ''GET''" by (simp add: image_request_def)
  have "handleStaticAsset 1000 network_down no_caches image_request =
      \<lparr>outcome = Rejected NetworkError, caches = no_caches, fetched = [image_request]\<rparr>"
    by (simp add: handleStaticAsset_def handleStaticAsset_fetch_def handleStaticAsset_catch_def
        worker_fetch_def cache_match_def no_caches_def network_down_def image_request_def)
  then show ?thesis
    using cls listener_routes_http_to_static [OF http get] by simp
qed

text \<open>
  C5. When the network fetch for an API request fails and no unexpired copy is cached,
  the answer is a single 503 response with a JSON body, after one fetch and no retry.
  The code does not do this. The API request below reaches the listener while the
  network is down and nothing is cached: there is one fetch and no retry, but the answer
  is not the 503 response: it is the rejected promise of the static handler.
\<close>

theorem api_request_error_propagates:
  "isApiRequest api_request \<and>
   fresh_entry 1000 no_caches DYNAMIC_CACHE api api_request = None \<and>
   fetch_listener 1000 network_down no_caches api_request =
     RespondWith \<lparr>outcome = Rejected NetworkError, caches = no_caches, fetched = [api_request]\<rparr>"
proof -
  have cls: "isApiRequest api_request"
    by (simp add: api_request_def isApiRequest_def str_includes_def sublist_code)
  have miss: "fresh_entry 1000 no_caches DYNAMIC_CACHE api api_request = None"
    by (simp add: fresh_entry_def cache_match_def no_caches_def)
  have http: "prefix ''http://'' (url api_request) \<or> prefix ''https://'' (url api_request)"
    by (simp add: api_request_def)
  have get: "req_method api_request = ''GET''" by (simp add: api_request_def)
  have "handleStaticAsset 1000 network_down no_caches api_request =
      \<lparr>outcome = Rejected NetworkError, caches = no_caches, fetched = [api_request]\<rparr>"
    by (simp add: handleStaticAsset_def handleStaticAsset_fetch_def handleStaticAsset_catch_def
        worker_fetch_def cache_match_def no_caches_def network_down_def api_request_def)
  then show ?thesis
    using cls miss listener_routes_http_to_static [OF http get] by simp
qed


subsection \<open>Expiry of cache entries\<close>

text \<open>
  C3. A cached response is expired exactly when it carries no time stamp header or when
  more time has passed since its time stamp than the limit of its class, and an expired
  entry is never returned in preference to a network attempt. The code does not do
  this. The request below is for one of the assets that the install handler stores,
  without a time stamp, so its entry is expired. The network answers 200 with a newer
  body: the handler asks the network, cannot write the time stamp on the clone of the
  answer, and returns the expired entry in the place of the answer of the network. The
  caches stay as they were, so the entry never gets a time stamp.
\<close>

theorem expired_entry_returned:
  "cache_match precached_caches STATIC_CACHE precached_request = Some response_v1 \<and>
   headers_get response_v1 ''X-Cache-Timestamp'' = None \<and>
   isCacheExpired 1000 response_v1 (CACHE_EXPIRY static) \<and>
   worker_fetch network_v2 precached_request = Some response_v2 \<and> ok response_v2 \<and>
   response_v2 \<noteq> response_v1 \<and>
   fetch_listener 1000 network_v2 precached_caches precached_request =
     RespondWith \<lparr>outcome = Resolved response_v1, caches = precached_caches,
                  fetched = [precached_request]\<rparr>"
proof -
  have hit: "cache_match precached_caches STATIC_CACHE precached_request = Some response_v1"
    by (simp add: cache_match_def precached_caches_def precached_request_def seal_def
        response_v1_def)
  have nostamp: "headers_get response_v1 ''X-Cache-Timestamp'' = None"
    by (simp add: headers_get_def response_v1_def)
  have expired: "isCacheExpired 1000 response_v1 (CACHE_EXPIRY static)"
    using nostamp by (rule isCacheExpired_no_timestamp)
  have net: "worker_fetch network_v2 precached_request = Some response_v2"
    by (simp add: worker_fetch_def network_v2_def seal_def response_v2_def)
  have okr: "ok response_v2" by (simp add: ok_def response_v2_def)
  have raw: "\<And>req. network_v2 req = Some response_v2" by (simp add: network_v2_def)
  have stale: "fresh_entry 1000 precached_caches STATIC_CACHE static precached_request = None"
    using expired by (simp add: fresh_entry_def hit)
  have newer: "response_v2 \<noteq> response_v1" by (simp add: response_v1_def response_v2_def)
  have http: "prefix ''http://'' (url precached_request) \<or> prefix ''https://'' (url precached_request)"
    by (simp add: precached_request_def)
  have get: "req_method precached_request = ''GET''" by (simp add: precached_request_def)
  have run: "handleStaticAsset 1000 network_v2 precached_caches precached_request =
      \<lparr>outcome = Resolved response_v1, caches = precached_caches,
       fetched = [precached_request]\<rparr>"
    using handleStaticAsset_ok_answer [OF stale raw okr]
    by (simp add: hit)
  show ?thesis
    using hit nostamp expired net okr newer run listener_routes_http_to_static [OF http get]
    by simp
qed

section \<open>Properties of the performance optimizer\<close>

subsection \<open>The memory cache and its budget\<close>

lemma calculateObjectSize_text: "calculateObjectSize (text_of_length n) = 2 * int n + 4"
  by (simp add: calculateObjectSize_def text_of_length_def)

lemma data_sizes:
  "calculateObjectSize data_20MB = 20 * 1024 * 1024"
  "calculateObjectSize data_30MB = 30 * 1024 * 1024"
  "calculateObjectSize data_45MB = 45 * 1024 * 1024"
  by (simp_all add: data_20MB_def data_30MB_def data_45MB_def calculateObjectSize_text)

text \<open>An item that alone is larger than the budget is refused and nothing changes.\<close>

lemma cacheInMemory_too_large:
  "calculateObjectSize d > maxMemoryCacheSize c \<Longrightarrow> cacheInMemory k d c = (False, c)"
  by (simp add: cacheInMemory_def)

text \<open>
  C10. After every call of \<^verbatim>\<open>cacheInMemory\<close> the recorded size of the memory cache is
  at most its budget of 50MB. The code does not keep this. The same key is cached twice
  with a value of 20MB: the second call replaces the value but adds its size again, so
  40MB are recorded for 20MB held. A third call with a new key and 45MB evicts the only
  entry, finds the map empty with 20MB still recorded, leaves the loop and records 65MB,
  above the budget of 50MB.
\<close>

theorem memory_cache_over_budget:
  "cacheInMemory ''k'' data_20MB setupMemoryCache =
     (True, \<lparr>memoryCache = [(''k'', data_20MB)], memoryCacheSize = 20 * 1024 * 1024,
             maxMemoryCacheSize = 50 * 1024 * 1024\<rparr>) \<and>
   cacheInMemory ''k'' data_20MB (snd (cacheInMemory ''k'' data_20MB setupMemoryCache)) =
     (True, \<lparr>memoryCache = [(''k'', data_20MB)], memoryCacheSize = 40 * 1024 * 1024,
             maxMemoryCacheSize = 50 * 1024 * 1024\<rparr>) \<and>
   cacheInMemory ''j'' data_45MB
       (snd (cacheInMemory ''k'' data_20MB (snd (cacheInMemory ''k'' data_20MB setupMemoryCache)))) =
     (True, \<lparr>memoryCache = [(''j'', data_45MB)], memoryCacheSize = 65 * 1024 * 1024,
             maxMemoryCacheSize = 50 * 1024 * 1024\<rparr>)"
  by (simp add: cacheInMemory_def setupMemoryCache_def data_sizes)

text \<open>
  A second way over the budget: the empty string is a key like any other, but the loop
  takes it for a missing key and stops without evicting, so 60MB are held and recorded.
\<close>

lemma memory_cache_falsy_key:
  "cacheInMemory ''a'' data_30MB (snd (cacheInMemory [] data_30MB setupMemoryCache)) =
     (True, \<lparr>memoryCache = [([], data_30MB), (''a'', data_30MB)],
             memoryCacheSize = 60 * 1024 * 1024, maxMemoryCacheSize = 50 * 1024 * 1024\<rparr>)"
  by (simp add: cacheInMemory_def setupMemoryCache_def data_sizes)
text \<open>
  What the loop does achieve: while the recorded size is the size really held and no key
  is the empty string, it leaves room for the new item or an empty map, and the record
  stays exact. Caching under a new key then keeps the recorded size within the budget.
\<close>

lemma free_space_exact:
  assumes "cacheSize = stored_size entries" and "\<forall>k \<in> fst ` set entries. k \<noteq> []"
    and "free_space itemSize maxSize entries cacheSize = (entries', cacheSize')"
  shows "cacheSize' = stored_size entries' \<and> (cacheSize' + itemSize \<le> maxSize \<or> entries' = []) \<and>
         set entries' \<subseteq> set entries"
  using assms
proof (induction entries arbitrary: cacheSize)
  case Nil
  then show ?case by simp
next
  case (Cons e entries)
  obtain k d where e: "e = (k, d)" by (cases e)
  show ?case
  proof (cases "cacheSize + itemSize > maxSize")
    case True
    have k: "k \<noteq> []" using Cons.prems(2) e by simp
    have rest: "free_space itemSize maxSize entries (cacheSize - calculateObjectSize d) = (entries', cacheSize')"
      using Cons.prems(3) True k e by simp
    have "cacheSize - calculateObjectSize d = stored_size entries"
      using Cons.prems(1) e by (simp add: stored_size_def)
    moreover have "\<forall>k \<in> fst ` set entries. k \<noteq> []"
      using Cons.prems(2) by simp
    ultimately show ?thesis
      using Cons.IH [OF _ _ rest] by auto
  next
    case False
    then show ?thesis
      using Cons.prems e by auto
  qed
qed

lemma stored_size_update_new:
  "k \<notin> fst ` set entries \<Longrightarrow>
   stored_size (AList.update k d entries) = stored_size entries + calculateObjectSize d"
  by (induction entries) (auto simp: stored_size_def)

lemma cacheInMemory_new_key_within_budget:
  assumes "memoryCacheSize c = stored_size (memoryCache c)"
    and "\<forall>k \<in> fst ` set (memoryCache c). k \<noteq> []"
    and "key \<notin> fst ` set (memoryCache c)"
    and "cacheInMemory key d c = (True, c')"
  shows "memoryCacheSize c' \<le> maxMemoryCacheSize c' \<and>
         memoryCacheSize c' = stored_size (memoryCache c')"
proof -
  let ?sz = "calculateObjectSize d"
  have fits: "?sz \<le> maxMemoryCacheSize c"
    using assms(4) by (auto simp: cacheInMemory_def Let_def split: if_splits)
  obtain entries cacheSize where fs:
    "free_space ?sz (maxMemoryCacheSize c) (memoryCache c) (memoryCacheSize c) = (entries, cacheSize)"
    by (cases "free_space ?sz (maxMemoryCacheSize c) (memoryCache c) (memoryCacheSize c)")
  have c': "c' = c\<lparr>memoryCache := AList.update key d entries, memoryCacheSize := cacheSize + ?sz\<rparr>"
    using assms(4) fits fs by (simp add: cacheInMemory_def Let_def)
  from free_space_exact [OF assms(1,2) fs]
  have exact: "cacheSize = stored_size entries"
    and room: "cacheSize + ?sz \<le> maxMemoryCacheSize c \<or> entries = []"
    and sub: "set entries \<subseteq> set (memoryCache c)"
    by auto
  have new: "key \<notin> fst ` set entries" using assms(3) sub by auto
  have "cacheSize + ?sz \<le> maxMemoryCacheSize c"
    using room exact fits by (auto simp: stored_size_def)
  then show ?thesis
    using c' exact stored_size_update_new [OF new] by simp
qed

subsection \<open>The resource queue\<close>

text \<open>
  C8, as the specification states it: there is no prioritized request queue and no bound
  on how many queued loads run at the same time. This fails. A resource queued later with
  priority 5 is placed before one queued earlier with priority 0, and of seven queued
  resources one call of \<^verbatim>\<open>processResourceQueue\<close> starts six while online, and two while
  offline.
\<close>

theorem queue_prioritized_and_bounded:
  "map resource_url (queueResourceLoad ''/b.js'' 5 (queueResourceLoad ''/a.js'' 0 [])) =
     [''/b.js'', ''/a.js''] \<and>
   length seven_resources = 7 \<and>
   length (fst (processResourceQueue True seven_resources)) = 6 \<and>
   length (fst (processResourceQueue False seven_resources)) = 2"
  by (simp add: queueResourceLoad_def processResourceQueue_def maxConcurrent_def
      seven_resources_def)

lemma concat_process_batches: "concat (process_batches isOnline q) = q"
proof (induction isOnline q rule: process_batches.induct)
  case (1 isOnline q)
  show ?case
  proof (cases "q = []")
    case True
    then show ?thesis by (subst process_batches.simps) simp
  next
    case False
    with 1 show ?thesis
      by (subst process_batches.simps) (simp add: processResourceQueue_def)
  qed
qed

lemma process_batches_bounded:
  "\<forall>b \<in> set (process_batches isOnline q). b \<noteq> [] \<and> length b \<le> maxConcurrent isOnline"
proof (induction isOnline q rule: process_batches.induct)
  case (1 isOnline q)
  show ?case
  proof (cases "q = []")
    case True
    then show ?thesis by (subst process_batches.simps) simp
  next
    case False
    with 1 show ?thesis
      by (subst process_batches.simps)
        (auto simp: processResourceQueue_def maxConcurrent_def)
  qed
qed

text \<open>
  C8, amended. The performance optimizer schedules queued resource loads itself.
  \<^verbatim>\<open>queueResourceLoad\<close> keeps every queued resource and orders the queue by descending
  priority, resources of equal priority staying in the order they were queued.
  One call of \<^verbatim>\<open>processResourceQueue\<close> starts the loads of the first resources of the
  queue, at most 6 when online and at most 2 when offline, and leaves the others queued;
  the chain of calls starts every queued resource exactly once, in queue order, in
  batches that are never empty and never larger than that bound. A load is one fetch of
  its URL, with no second attempt.
\<close>

theorem resource_queue_scheduling:
  "sorted (map (\<lambda>item. - priority item) (queueResourceLoad u p q)) \<and>
   mset (queueResourceLoad u p q) = mset q + {#\<lparr>resource_url = u, priority = p\<rparr>#} \<and>
   filter (\<lambda>item. priority item = n) (queueResourceLoad u p q) =
     filter (\<lambda>item. priority item = n) (q @ [\<lparr>resource_url = u, priority = p\<rparr>]) \<and>
   fst (processResourceQueue isOnline q) @ snd (processResourceQueue isOnline q) = q \<and>
   length (fst (processResourceQueue isOnline q)) = min (if isOnline then 6 else 2) (length q) \<and>
   concat (process_batches isOnline q) = q \<and>
   (\<forall>b \<in> set (process_batches isOnline q). b \<noteq> [] \<and> length b \<le> (if isOnline then 6 else 2)) \<and>
   snd (loadResource fetch v) = [v]"
proof -
  have stable: "filter (\<lambda>item. priority item = n) (queueResourceLoad u p q) =
     filter (\<lambda>item. priority item = n) (q @ [\<lparr>resource_url = u, priority = p\<rparr>])"
    unfolding queueResourceLoad_def
    using sort_key_stable [of "\<lambda>item. - priority item" "- n" "q @ [\<lparr>resource_url = u, priority = p\<rparr>]"]
    by simp
  have bounded: "\<forall>b \<in> set (process_batches isOnline q). b \<noteq> [] \<and> length b \<le> (if isOnline then 6 else 2)"
    using process_batches_bounded [of isOnline q] by (simp add: maxConcurrent_def)
  have once: "snd (loadResource fetch v) = [v]"
    by (simp add: loadResource_def split: option.splits)
  show ?thesis
    using stable bounded once concat_process_batches [of isOnline q]
    by (simp add: queueResourceLoad_def processResourceQueue_def maxConcurrent_def
        sorted_sort_key)
qed

theorem resource_queue_scheduling_witness:
  "process_batches True seven_resources =
     [take 6 seven_resources, drop 6 seven_resources] \<and>
   take 6 seven_resources \<noteq> [] \<and> length (take 6 seven_resources) \<le> 6 \<and>
   drop 6 seven_resources \<noteq> [] \<and> length (drop 6 seven_resources) \<le> 6"
proof -
  have batches: "process_batches True seven_resources =
      [take 6 seven_resources, drop 6 seven_resources]"
    by (simp add: process_batches.simps processResourceQueue_def maxConcurrent_def
        seven_resources_def)
  have "\<forall>b \<in> set (process_batches True seven_resources). b \<noteq> [] \<and> length b \<le> 6"
    using resource_queue_scheduling [of "''/a.js''" 0 seven_resources 0 True "\<lambda>u. None" "''/a.js''"]
    by simp
  then show ?thesis
    using batches by simp
qed

section \<open>Properties of the theme manager\<close>

lemma themes_keys:
  "map fst themes =
     [''classic'', ''sakura'', ''rose'', ''coral'', ''lavender_original'', ''warm'', ''dark'',
      ''forest'', ''ocean'', ''sunset'', ''lavender'', ''rose-gold'']"
  by (simp add: themes_def)

lemma themes_get_table:
  assumes "map_of themes key = Some t"
  shows "themes_get key = Some (Theme t)" and "key \<noteq> []"
proof -
  show "themes_get key = Some (Theme t)" using assms by (simp add: themes_get_def)
  have "map_of themes [] = None" by (simp add: themes_def)
  then show "key \<noteq> []" using assms by auto
qed

lemma getItem_setItem: "getItem key (setItem key v storage) = Some v"
  by (simp add: getItem_def setItem_def update_conv')

lemma filter_eq_distinct:
  "distinct xs \<Longrightarrow> x \<in> set xs \<Longrightarrow> filter (\<lambda>k. k = x) xs = [x]"
proof (induction xs)
  case Nil
  then show ?case by simp
next
  case (Cons a xs)
  show ?case
  proof (cases "a = x")
    case True
    with Cons.prems have "filter (\<lambda>k. k = x) xs = []"
      by (auto simp: filter_empty_conv)
    with True show ?thesis by simp
  next
    case False
    with Cons show ?thesis by simp
  qed
qed

lemma applied_themes_applyTheme:
  assumes "key \<in> set (map fst themes)"
  shows "applied_themes (applyTheme key st) = [key]"
proof -
  have d: "distinct (map fst themes)" by (simp add: themes_keys)
  have "\<And>k. k \<in> set (map fst themes) \<Longrightarrow>
      ((''theme-'' @ k) \<in> set (bodyClasses (applyTheme key st))) = (k = key)"
    by (auto simp: applyTheme_def classList_add_def classList_remove_def Let_def)
  then have "applied_themes (applyTheme key st) = filter (\<lambda>k. k = key) (map fst themes)"
    unfolding applied_themes_def by (intro filter_cong) auto
  also have "\<dots> = [key]"
    using assms d by (rule_tac filter_eq_distinct) auto
  finally show ?thesis .
qed

text \<open>
  For a key of the table the theme survives a reload: \<^verbatim>\<open>setTheme\<close> stores the key under
  \<^verbatim>\<open>preferred-theme\<close>, and a new theme manager on the reloaded page, whatever classes
  its body starts with, reads it, makes it the current theme and applies its class and
  no other theme class.
\<close>

lemma theme_round_trip:
  assumes "map_of themes key = Some t"
  shows "getItem ''preferred-theme'' (localStorage (setTheme key st)) = Some key \<and>
         currentTheme (setTheme key st) = key \<and>
         applied_themes (setTheme key st) = [key] \<and>
         currentTheme (new_ThemeManager (localStorage (setTheme key st)) classes) = key \<and>
         applied_themes (new_ThemeManager (localStorage (setTheme key st)) classes) = [key]"
proof -
  have key: "key \<in> set (map fst themes)"
    using assms by (metis map_of_SomeD image_eqI fst_conv set_map)
  have stored: "getItem ''preferred-theme'' (localStorage (setTheme key st)) = Some key"
    using themes_get_table(1) [OF assms]
    by (simp add: setTheme_def Let_def showThemeNotification_def updateActiveButton_def
        applyTheme_def getItem_setItem)
  have cur: "currentTheme (setTheme key st) = key"
    using themes_get_table(1) [OF assms]
    by (simp add: setTheme_def Let_def showThemeNotification_def updateActiveButton_def
        applyTheme_def)
  have "bodyClasses (setTheme key st) = bodyClasses (applyTheme key st)"
    using themes_get_table(1) [OF assms]
    by (simp add: setTheme_def Let_def showThemeNotification_def updateActiveButton_def
        applyTheme_def)
  then have app: "applied_themes (setTheme key st) = [key]"
    using applied_themes_applyTheme [OF key, of st] by (simp add: applied_themes_def)
  let ?st0 = "\<lparr>currentTheme = ''classic'', localStorage = localStorage (setTheme key st),
      bodyClasses = classes, themeOptions = [], notification = NoNotification\<rparr>"
  have load: "loadSavedTheme ?st0 = applyTheme key (?st0\<lparr>currentTheme := key\<rparr>)"
    using stored themes_get_table [OF assms] by (simp add: loadSavedTheme_def)
  have cur': "currentTheme (new_ThemeManager (localStorage (setTheme key st)) classes) = key"
    unfolding new_ThemeManager_def load by (simp add: createThemeSelector_def applyTheme_def)
  have "bodyClasses (new_ThemeManager (localStorage (setTheme key st)) classes) =
      bodyClasses (applyTheme key (?st0\<lparr>currentTheme := key\<rparr>))"
    unfolding new_ThemeManager_def load by (simp add: createThemeSelector_def)
  then have app': "applied_themes (new_ThemeManager (localStorage (setTheme key st)) classes) = [key]"
    using applied_themes_applyTheme [OF key, of "?st0\<lparr>currentTheme := key\<rparr>"]
    by (simp add: applied_themes_def)
  show ?thesis
    using stored cur app cur' app' by simp
qed

text \<open>A key that is neither in the table nor a property of the prototype changes nothing.\<close>

lemma setTheme_unknown:
  "map_of themes key = None \<Longrightarrow> key \<notin> set Object_prototype \<Longrightarrow> setTheme key st = st"
  by (simp add: setTheme_def themes_get_def)

text \<open>
  C6. A theme chosen with \<^verbatim>\<open>setTheme\<close> is stored under \<^verbatim>\<open>preferred-theme\<close> and applied
  again by the theme manager of the next page load, and \<^verbatim>\<open>setTheme\<close> with a name that
  is not in the theme table stores and applies nothing. The code does not keep the last
  part. The name \<^verbatim>\<open>constructor\<close> is not in the theme table, yet \<^verbatim>\<open>setTheme\<close> accepts
  it: on a fresh page it becomes the current theme, its class is put on the body and it
  is stored under \<^verbatim>\<open>preferred-theme\<close>; the theme manager of the next page load reads
  it back and applies it again.
\<close>

theorem setTheme_inherited_name:
  "map_of themes ''constructor'' = None \<and>
   setTheme ''constructor'' (new_ThemeManager [] []) =
     \<lparr>currentTheme = ''constructor'',
      localStorage = [(''preferred-theme'', ''constructor'')],
      bodyClasses = [''theme-constructor''],
      themeOptions = map (\<lambda>key. (key, False)) (map fst themes),
      notification = ThemeNotification (Some (ascii ''Object''))\<rparr> \<and>
   currentTheme (new_ThemeManager [(''preferred-theme'', ''constructor'')] []) = ''constructor'' \<and>
   bodyClasses (new_ThemeManager [(''preferred-theme'', ''constructor'')] []) = [''theme-constructor'']"
  by (simp add: new_ThemeManager_def loadSavedTheme_def getItem_def createThemeSelector_def
      setTheme_def themes_get_def Object_prototype_def applyTheme_def classList_add_def
      classList_remove_def updateActiveButton_def setItem_def showThemeNotification_def
      themes_def Let_def)

section \<open>Properties of the icon manager\<close>

text \<open>
  What \<^verbatim>\<open>setupIconFallback\<close> does to one icon, in terms of positions in the map: with
  no key of the map in the class list the icon is unchanged; otherwise the text becomes
  the emoji at the first position whose key is in the class list.
\<close>

lemma find_Some_first:
  "find P xs = Some x \<Longrightarrow>
   \<exists>j < length xs. xs ! j = x \<and> P x \<and> (\<forall>j' < j. \<not> P (xs ! j'))"
  by (auto simp: find_Some_iff)

lemma setupIconFallback_no_key:
  assumes "\<forall>key \<in> set (map fst iconMap). key \<notin> set (classList icon)"
  shows "setupIconFallback icon = icon"
proof -
  have "find (\<lambda>(faClass, emoji). faClass \<in> set (classList icon)) iconMap = None"
    using assms by (auto simp: find_None_iff)
  then show ?thesis by (simp add: setupIconFallback_def)
qed

lemma setupIconFallback_first_key:
  assumes "\<exists>key \<in> set (map fst iconMap). key \<in> set (classList icon)"
  shows "\<exists>j < length iconMap.
           fst (iconMap ! j) \<in> set (classList icon) \<and>
           (\<forall>j' < j. fst (iconMap ! j') \<notin> set (classList icon)) \<and>
           textContent (setupIconFallback icon) = snd (iconMap ! j) \<and>
           classList (setupIconFallback icon) = classList icon \<and>
           localName (setupIconFallback icon) = localName icon"
proof -
  let ?P = "\<lambda>(faClass, emoji). faClass \<in> set (classList icon)"
  have "find ?P iconMap \<noteq> None"
    using assms by (auto simp: find_None_iff)
  then obtain faClass emoji where f: "find ?P iconMap = Some (faClass, emoji)"
    by (cases "find ?P iconMap") auto
  from find_Some_first [OF f] obtain j where j: "j < length iconMap"
    "iconMap ! j = (faClass, emoji)" "faClass \<in> set (classList icon)"
    "\<forall>j' < j. \<not> ?P (iconMap ! j')"
    by auto
  have "\<forall>j' < j. fst (iconMap ! j') \<notin> set (classList icon)"
    using j(4) by (auto simp: case_prod_beta)
  then show ?thesis
    using j f by (intro exI [of _ j]) (simp add: setupIconFallback_def)
qed

text \<open>
  C7. When the three readings show that Font Awesome is not loaded, the check ends
  without error, the body has the class \<^verbatim>\<open>icon-fallback-active\<close>, and the page has the
  same elements as before, where every icon element (an \<^verbatim>\<open>i\<close> with one of the classes
  fas, fa, far, fab) whose class list contains a key of the icon map has as text the
  emoji of the first key of the map that is in its class list, and every other element is
  unchanged.
\<close>

theorem emoji_fallback:
  assumes "\<not> hasFontAwesome contents"
  shows "fst (checkFontAwesome contents st) = None \<and>
     ''icon-fallback-active'' \<in> set (body_classList (snd (checkFontAwesome contents st))) \<and>
     length (elements (snd (checkFontAwesome contents st))) = length (elements st) \<and>
     (\<forall>i < length (elements st).
        (let e = elements st ! i; e' = elements (snd (checkFontAwesome contents st)) ! i
         in if matches_icon_selector e \<and> (\<exists>key \<in> set (map fst iconMap). key \<in> set (classList e))
            then (\<exists>j < length iconMap.
                    fst (iconMap ! j) \<in> set (classList e) \<and>
                    (\<forall>j' < j. fst (iconMap ! j') \<notin> set (classList e)) \<and>
                    textContent e' = snd (iconMap ! j))
            else e' = e))"
proof -
  let ?upd = "\<lambda>e. if matches_icon_selector e then setupIconFallback e else e"
  have res: "checkFontAwesome contents st =
      (None, st\<lparr>isEmojiModeActive := True,
                body_classList := classList_add ''icon-fallback-active'' (body_classList st),
                elements := map ?upd (elements st),
                iconNotification := True\<rparr>)"
    using assms
    by (simp add: checkFontAwesome_def Let_def enableEmojiIcons_def updateAllIcons_def
        showIconNotification_def)
  have cls: "''icon-fallback-active'' \<in> set (classList_add ''icon-fallback-active'' (body_classList st))"
    by (simp add: classList_add_def)
  have each: "(let e = elements st ! i; e' = map ?upd (elements st) ! i
         in if matches_icon_selector e \<and> (\<exists>key \<in> set (map fst iconMap). key \<in> set (classList e))
            then (\<exists>j < length iconMap.
                    fst (iconMap ! j) \<in> set (classList e) \<and>
                    (\<forall>j' < j. fst (iconMap ! j') \<notin> set (classList e)) \<and>
                    textContent e' = snd (iconMap ! j))
            else e' = e)" if i: "i < length (elements st)" for i
  proof (cases "matches_icon_selector (elements st ! i)")
    case sel: True
    show ?thesis
    proof (cases "\<exists>key \<in> set (map fst iconMap). key \<in> set (classList (elements st ! i))")
      case True
      from setupIconFallback_first_key [OF True] show ?thesis
        using i sel True by (auto simp: Let_def)
    next
      case False
      then have "setupIconFallback (elements st ! i) = elements st ! i"
        by (intro setupIconFallback_no_key) auto
      then show ?thesis using i sel False by (simp add: Let_def)
    qed
  next
    case False
    then show ?thesis using i by (simp add: Let_def)
  qed
  show ?thesis
    unfolding res using cls each by simp
qed

theorem emoji_fallback_witness:
  "\<not> hasFontAwesome [ascii ''none'', ascii ''none'', ascii ''none''] \<and>
   fst (checkFontAwesome [ascii ''none'', ascii ''none'', ascii ''none''] example_page) = None \<and>
   body_classList (snd (checkFontAwesome [ascii ''none'', ascii ''none'', ascii ''none''] example_page)) =
     [''theme-classic'', ''icon-fallback-active''] \<and>
   map textContent (elements (snd (checkFontAwesome [ascii ''none'', ascii ''none'', ascii ''none''] example_page))) =
     [[55357, 56507], [10084, 65039], [], []] \<and>
   elements (snd (checkFontAwesome [ascii ''none'', ascii ''none'', ascii ''none''] example_page)) ! 2 =
     elements example_page ! 2 \<and>
   elements (snd (checkFontAwesome [ascii ''none'', ascii ''none'', ascii ''none''] example_page)) ! 3 =
     elements example_page ! 3"
proof -
  let ?contents = "[ascii ''none'', ascii ''none'', ascii ''none'']"
  let ?st' = "snd (checkFontAwesome ?contents example_page)"
  have no: "\<not> hasFontAwesome ?contents"
    by (simp add: hasFontAwesome_def valid_content_def testElements_def)
  note main = emoji_fallback [OF no, of example_page]
  have len: "length (elements example_page) = 4"
    by (simp add: example_page_def)
  have e2: "\<not> (\<exists>key \<in> set (map fst iconMap). key \<in> set (classList (elements example_page ! 2)))"
    by (simp add: example_page_def iconMap_def)
  have e3: "\<not> matches_icon_selector (elements example_page ! 3)"
    by (simp add: example_page_def matches_icon_selector_def)
  have u2: "elements ?st' ! 2 = elements example_page ! 2"
    using main len e2 by (auto simp: Let_def split: if_splits)
  have u3: "elements ?st' ! 3 = elements example_page ! 3"
    using main len e3 by (auto simp: Let_def split: if_splits)
  have cls: "body_classList ?st' = [''theme-classic'', ''icon-fallback-active'']"
    using no
    by (simp add: checkFontAwesome_def Let_def enableEmojiIcons_def updateAllIcons_def
        showIconNotification_def classList_add_def example_page_def)
  have texts: "map textContent (elements ?st') = [[55357, 56507], [10084, 65039], [], []]"
    using no
    by (simp add: checkFontAwesome_def Let_def enableEmojiIcons_def updateAllIcons_def
        showIconNotification_def example_page_def testElements_def matches_icon_selector_def
        setupIconFallback_def iconMap_def)
  show ?thesis
    using no main cls texts u2 u3 by simp
qed

end
